theory Spec2Isabelle
  imports Main "HOL-Library.AList"
begin

section \<open>Data model\<close>

text \<open>
  The module \<^verbatim>\<open>azkaban/project.py\<close> defines one class, \<^verbatim>\<open>Project\<close>, whose instances
  carry a name and two dictionaries: \<^verbatim>\<open>_jobs\<close> (job name to job object) and \<^verbatim>\<open>_files\<close>
  (absolute path to path inside the archive, \<^verbatim>\<open>None\<close> when no archive path was given).

  A Python dictionary is modelled as an association list. The order of the list stands for
  the order in which \<^verbatim>\<open>items()\<close> enumerates the dictionary; membership is \<open>map_of\<close> and the
  assignment \<^verbatim>\<open>d[k] = v\<close> is \<open>AList.update\<close>. Every theorem below quantifies over all lists,
  hence over every enumeration order.
\<close>

text \<open>
  Modelled from the spec: the class \<^verbatim>\<open>Job\<close> (\<^verbatim>\<open>azkaban/job.py\<close>) is not part of the sources
  at hand. The specification describes a job as a mapping of option keys to values that is
  serialised to a flat \<^verbatim>\<open>key=value\<close> text.
\<close>

record job =
  build_options :: "(string \<times> string) list"

record project =
  name :: string
  jobs :: "(string \<times> job) list"
  files :: "(string \<times> string option) list"

text \<open>
  What a file on disk holds: plain text, or a zip archive. An archive is the list of the
  \<^verbatim>\<open>ZipFile.write(filename, arcname)\<close> calls that produced it: the \<^verbatim>\<open>arcname\<close> argument as
  it was passed (possibly \<^verbatim>\<open>None\<close>) and what was read from \<^verbatim>\<open>filename\<close>.
\<close>

datatype content = Text string | Zip "(string option \<times> content) list"

text \<open>
  The messages of \<^verbatim>\<open>AzkabanError\<close>, one constructor per format string of the module, and
  the exceptions that can leave its methods.
\<close>

datatype message =
    RelativePath string
  | InconsistentDuplicate string
  | MissingFile string
  | DuplicateJobName string
  | PathExists string
  | EmptyProject
  | UnableToConnect
  | InvalidUrl
  | MissingArchive string
  | ServerError string
  | MissingAlias string
  | MissingUrlForAlias string
  | MissingJob string

datatype exn =
    AzkabanError message
  | ValueError string
  | KeyError string
  | NameError string
  | OSError string
  | IOError string
  | NoSectionError string
  | NoOptionError string string
  | ConnectionError
  | MissingSchema
  | SystemExit nat

type_synonym 'a result = "exn + 'a"

text \<open>
  An HTTP POST as \<^verbatim>\<open>requests.post\<close> receives it: the URL, the form fields and the attached
  file, if any. Its outcome is one of the two exceptions the module catches, or a response
  with its body text and the body parsed as a JSON object (\<open>None\<close> when the body is not
  JSON, in which case \<^verbatim>\<open>req.json()\<close> raises \<^verbatim>\<open>ValueError\<close>). JSON values are kept as text.
\<close>

record request =
  req_url :: string
  req_data :: "(string \<times> string) list"
  req_files :: "(string \<times> string \<times> content \<times> string) list"

datatype reply =
    RaiseConnectionError
  | RaiseMissingSchema
  | Response string "(string \<times> string) list option"

text \<open>
  The credential file as \<^verbatim>\<open>RawConfigParser\<close> sees it: the defaults and the sections, each
  a dictionary of options.
\<close>

record config =
  cfg_defaults :: "(string \<times> string) list"
  cfg_sections :: "(string \<times> (string \<times> string) list) list"

text \<open>
  Everything the methods read or change. Project objects live in a store indexed by
  reference, so that two names for one object share its state. The server answers a request
  depending on the calls of \<^verbatim>\<open>post\<close> made before it (\<open>posted\<close>). \<open>getuser\<close> is the login
  name of the current user, \<open>getpass\<close> what is typed at a password prompt, \<open>prompts\<close> the
  prompts shown, \<open>errors\<close> the messages handed to \<^verbatim>\<open>logger.error\<close>, \<open>printed\<close> the option
  tables handed to \<^verbatim>\<open>pretty_print\<close>, and \<open>temppath\<close> the path that \<^verbatim>\<open>temppath()\<close> hands out.
  The disk is flat: it maps the paths of the files to what they hold. What it leaves out of
  the file system (directories, permissions) is the predicate \<open>writable\<close>: the paths at which
  the operating system lets a file be created or replaced, that is, which are not a
  directory, lie in a directory that exists and may be written by the user.
\<close>

record world =
  heap :: "nat \<Rightarrow> project"
  disk :: "string \<rightharpoonup> content"
  rcfile :: "config option"
  server :: "request list \<Rightarrow> request \<Rightarrow> reply"
  posted :: "request list"
  getuser :: string
  getpass :: string
  prompts :: "string list"
  errors :: "message list"
  printed :: "(string \<times> string) list list"
  temppath :: string
  writable :: "string \<Rightarrow> bool"

section \<open>Registering jobs and files\<close>

definition isabs :: "string \<Rightarrow> bool" where
  "isabs path = (case path of [] \<Rightarrow> False | c # _ \<Rightarrow> c = CHR ''/'')"

definition exists :: "world \<Rightarrow> string \<Rightarrow> bool" where
  "exists w path = (disk w path \<noteq> None)"

definition set_jobs :: "nat \<Rightarrow> (string \<times> job) list \<Rightarrow> world \<Rightarrow> world" where
  "set_jobs self js w = w\<lparr>heap := (heap w)(self := (heap w self)\<lparr>jobs := js\<rparr>)\<rparr>"

definition set_files :: "nat \<Rightarrow> (string \<times> string option) list \<Rightarrow> world \<Rightarrow> world" where
  "set_files self fs w = w\<lparr>heap := (heap w)(self := (heap w self)\<lparr>files := fs\<rparr>)\<rparr>"

text \<open>
  Modelled from the spec: \<^verbatim>\<open>Job.on_add\<close> and \<^verbatim>\<open>Job.on_build\<close> (\<^verbatim>\<open>azkaban/job.py\<close>, not part
  of the sources at hand) are the hooks a project calls on its jobs. The specification gives
  a job no effect on the project that holds it, so both hooks return without doing anything.
\<close>

definition on_add :: "job \<Rightarrow> nat \<Rightarrow> string \<Rightarrow> world \<Rightarrow> unit result \<times> world" where
  "on_add j project jname w = (Inr (), w)"

definition on_build :: "job \<Rightarrow> nat \<Rightarrow> string \<Rightarrow> world \<Rightarrow> unit result \<times> world" where
  "on_build j project jname w = (Inr (), w)"

definition add_file :: "nat \<Rightarrow> string \<Rightarrow> string option \<Rightarrow> world \<Rightarrow> unit result \<times> world" where
  "add_file self path archive_path w =
     (if \<not> isabs path then (Inl (AzkabanError (RelativePath path)), w)
      else (case map_of (files (heap w self)) path of
              Some registered \<Rightarrow>
                (if registered \<noteq> archive_path
                 then (Inl (AzkabanError (InconsistentDuplicate path)), w)
                 else (Inr (), w))
            | None \<Rightarrow>
                (if \<not> exists w path then (Inl (AzkabanError (MissingFile path)), w)
                 else (Inr (),
                   set_files self (AList.update path archive_path (files (heap w self))) w))))"

definition add_job :: "nat \<Rightarrow> string \<Rightarrow> job \<Rightarrow> world \<Rightarrow> unit result \<times> world" where
  "add_job self jname j w =
     (if map_of (jobs (heap w self)) jname \<noteq> None
      then (Inl (AzkabanError (DuplicateJobName jname)), w)
      else on_add j self jname
             (set_jobs self (AList.update jname j (jobs (heap w self))) w))"

text \<open>
  The two loops of \<^verbatim>\<open>merge_into\<close>. Each runs over the list \<^verbatim>\<open>items()\<close> returned when the
  loop started; an exception raised by a call ends the loop and keeps the state reached.
\<close>

fun add_jobs :: "nat \<Rightarrow> (string \<times> job) list \<Rightarrow> world \<Rightarrow> unit result \<times> world" where
  "add_jobs project [] w = (Inr (), w)"
| "add_jobs project ((jname, j) # rest) w =
     (case add_job project jname j w of
        (Inl e, w') \<Rightarrow> (Inl e, w')
      | (Inr _, w') \<Rightarrow> add_jobs project rest w')"

fun add_files :: "nat \<Rightarrow> (string \<times> string option) list \<Rightarrow> world \<Rightarrow> unit result \<times> world" where
  "add_files project [] w = (Inr (), w)"
| "add_files project ((path, archive_path) # rest) w =
     (case add_file project path archive_path w of
        (Inl e, w') \<Rightarrow> (Inl e, w')
      | (Inr _, w') \<Rightarrow> add_files project rest w')"

definition merge_into :: "nat \<Rightarrow> nat \<Rightarrow> world \<Rightarrow> unit result \<times> world" where
  "merge_into self project w =
     (case add_jobs project (jobs (heap w self)) w of
        (Inl e, w') \<Rightarrow> (Inl e, w')
      | (Inr _, w') \<Rightarrow> add_files project (files (heap w' self)) w')"

section \<open>Building the archive\<close>

text \<open>
  Modelled from the spec: \<^verbatim>\<open>Job.build\<close> (\<^verbatim>\<open>azkaban/job.py\<close>, not part of the sources at hand)
  writes the job file. The specification has a job serialised to a flat \<^verbatim>\<open>key=value\<close> text:
  one line per option.
\<close>

definition job_text :: "job \<Rightarrow> string" where
  "job_text j = concat (map (\<lambda>(k, v). k @ ''='' @ v @ [CHR 0x0A]) (build_options j))"

text \<open>
  \<^verbatim>\<open>ZipFile(path, 'w')\<close> opens \<open>path\<close> for writing and creates the archive, empty, replacing
  what was there. It raises \<^verbatim>\<open>IOError\<close> when the file cannot be opened: when \<open>path\<close> is empty,
  a directory, in a directory that does not exist, or not permitted. In \<^verbatim>\<open>build\<close> the call
  stands before the \<^verbatim>\<open>try\<close>, so the exception leaves \<^verbatim>\<open>build\<close> as it is.
  \<^verbatim>\<open>writer.write(filename, arcname)\<close> reads \<open>filename\<close> from disk, raising \<^verbatim>\<open>OSError\<close> when
  there is no such file, and appends the entry. Entries reach the archive as they are
  written, so the archive holds the entries written so far also when an exception ends the
  build (the \<^verbatim>\<open>finally\<close> clause closes the writer in either case).
\<close>

definition entries :: "world \<Rightarrow> string \<Rightarrow> (string option \<times> content) list" where
  "entries w zpath = (case disk w zpath of Some (Zip es) \<Rightarrow> es | _ \<Rightarrow> [])"

definition ZipFile :: "string \<Rightarrow> world \<Rightarrow> unit result \<times> world" where
  "ZipFile zpath w =
     (if zpath \<noteq> [] \<and> writable w zpath
      then (Inr (), w\<lparr>disk := (disk w)(zpath \<mapsto> Zip [])\<rparr>)
      else (Inl (IOError zpath), w))"

definition append_entry :: "string \<Rightarrow> string option \<Rightarrow> content \<Rightarrow> world \<Rightarrow> world" where
  "append_entry zpath arcname c w =
     w\<lparr>disk := (disk w)(zpath \<mapsto> Zip (entries w zpath @ [(arcname, c)]))\<rparr>"

definition writer_write :: "string \<Rightarrow> string \<Rightarrow> string option \<Rightarrow> world \<Rightarrow> unit result \<times> world" where
  "writer_write zpath filename arcname w =
     (case disk w filename of
        None \<Rightarrow> (Inl (OSError filename), w)
      | Some c \<Rightarrow> (Inr (), append_entry zpath arcname c w))"

text \<open>
  The first loop of \<^verbatim>\<open>build\<close>. The job file is written to a temporary path that exists only
  for the duration of the \<^verbatim>\<open>with\<close> block, so the entry is appended with the job text as its
  content and the disk shows no other trace of it.
\<close>

fun write_jobs :: "nat \<Rightarrow> string \<Rightarrow> (string \<times> job) list \<Rightarrow> world \<Rightarrow> unit result \<times> world" where
  "write_jobs self zpath [] w = (Inr (), w)"
| "write_jobs self zpath ((jname, j) # rest) w =
     (case on_build j self jname w of
        (Inl e, w') \<Rightarrow> (Inl e, w')
      | (Inr _, w') \<Rightarrow>
          write_jobs self zpath rest
            (append_entry zpath (Some (jname @ ''.job'')) (Text (job_text j)) w'))"

fun write_files :: "string \<Rightarrow> (string \<times> string option) list \<Rightarrow> world \<Rightarrow> unit result \<times> world" where
  "write_files zpath [] w = (Inr (), w)"
| "write_files zpath ((fpath, apath) # rest) w =
     (case writer_write zpath fpath apath w of
        (Inl e, w') \<Rightarrow> (Inl e, w')
      | (Inr _, w') \<Rightarrow> write_files zpath rest w')"

definition build :: "nat \<Rightarrow> string \<Rightarrow> bool \<Rightarrow> world \<Rightarrow> unit result \<times> world" where
  "build self path overwrite w =
     (if exists w path \<and> \<not> overwrite then (Inl (AzkabanError (PathExists path)), w)
      else if \<not> (length (jobs (heap w self)) \<noteq> 0 \<or> length (files (heap w self)) \<noteq> 0)
      then (Inl (AzkabanError EmptyProject), w)
      else (case ZipFile path w of
              (Inl e, w0) \<Rightarrow> (Inl e, w0)
            | (Inr _, w0) \<Rightarrow>
                (case write_jobs self path (jobs (heap w0 self)) w0 of
                   (Inl e, w') \<Rightarrow> (Inl e, w')
                 | (Inr _, w') \<Rightarrow> write_files path (files (heap w' self)) w')))"

section \<open>Credentials\<close>

text \<open>Python's truth value of an optional string: \<^verbatim>\<open>None\<close> and the empty string are false.\<close>

fun truthy :: "string option \<Rightarrow> bool" where
  "truthy None = False"
| "truthy (Some s) = (s \<noteq> [])"

text \<open>The string behind an optional string that has passed the truth test.\<close>

fun val :: "string option \<Rightarrow> string" where
  "val None = []"
| "val (Some s) = s"

definition rstrip :: "string \<Rightarrow> char \<Rightarrow> string" where
  "rstrip s c = rev (dropWhile (\<lambda>x. x = c) (rev s))"

definition post :: "request \<Rightarrow> world \<Rightarrow> reply \<times> world" where
  "post r w = (server w (posted w) r, w\<lparr>posted := posted w @ [r]\<rparr>)"

text \<open>
  \<^verbatim>\<open>RawConfigParser({'user': '', 'session_id': ''})\<close> followed by \<^verbatim>\<open>read(rcpath)\<close>: a file that
  does not exist is skipped; the defaults of the file override those of the constructor. The
  section \<^verbatim>\<open>DEFAULT\<close> is never among the sections.
\<close>

definition read_config :: "world \<Rightarrow> config" where
  "read_config w =
     (case rcfile w of
        None \<Rightarrow> \<lparr>cfg_defaults = [(''user'', []), (''session_id'', [])], cfg_sections = []\<rparr>
      | Some c \<Rightarrow>
          \<lparr>cfg_defaults =
             fold (\<lambda>(k, v). AList.update k v) (cfg_defaults c)
               [(''user'', []), (''session_id'', [])],
           cfg_sections = cfg_sections c\<rparr>)"

definition has_section :: "config \<Rightarrow> string \<Rightarrow> bool" where
  "has_section parser section = (map_of (cfg_sections parser) section \<noteq> None)"

definition has_option :: "config \<Rightarrow> string \<Rightarrow> string \<Rightarrow> bool" where
  "has_option parser section option =
     (if section = [] \<or> section = ''DEFAULT'' then map_of (cfg_defaults parser) option \<noteq> None
      else (case map_of (cfg_sections parser) section of
              None \<Rightarrow> False
            | Some opts \<Rightarrow>
                map_of opts option \<noteq> None \<or> map_of (cfg_defaults parser) option \<noteq> None))"

definition get :: "config \<Rightarrow> string \<Rightarrow> string \<Rightarrow> string result" where
  "get parser section option =
     (case map_of (cfg_sections parser) section of
        None \<Rightarrow>
          (if section \<noteq> ''DEFAULT'' then Inl (NoSectionError section)
           else (case map_of (cfg_defaults parser) option of
                   Some v \<Rightarrow> Inr v
                 | None \<Rightarrow> Inl (NoOptionError option section)))
      | Some opts \<Rightarrow>
          (case map_of opts option of
             Some v \<Rightarrow> Inr v
           | None \<Rightarrow>
               (case map_of (cfg_defaults parser) option of
                  Some v \<Rightarrow> Inr v
                | None \<Rightarrow> Inl (NoOptionError option section))))"

definition set_option :: "config \<Rightarrow> string \<Rightarrow> string \<Rightarrow> string \<Rightarrow> config result" where
  "set_option parser section option v =
     (if section = [] \<or> section = ''DEFAULT''
      then Inr (parser\<lparr>cfg_defaults := AList.update option v (cfg_defaults parser)\<rparr>)
      else (case map_of (cfg_sections parser) section of
              None \<Rightarrow> Inl (NoSectionError section)
            | Some opts \<Rightarrow>
                Inr (parser\<lparr>cfg_sections :=
                  AList.update section (AList.update option v opts) (cfg_sections parser)\<rparr>)))"

definition write_config :: "config \<Rightarrow> world \<Rightarrow> world" where
  "write_config parser w = w\<lparr>rcfile := Some parser\<rparr>"

text \<open>
  The second half of \<^verbatim>\<open>_get_credentials\<close>: ask for what is missing, log in, and cache the
  new session id under the alias. \<open>parser\<close> is only read when an alias was given.
\<close>

definition login ::
  "string \<Rightarrow> string option \<Rightarrow> string option \<Rightarrow> string option \<Rightarrow> config \<Rightarrow> world
    \<Rightarrow> (string \<times> string) result \<times> world" where
  "login url user password alias parser w =
     (let user1 = (if truthy user then val user else getuser w);
          (password1, w1) =
            (if truthy password then (val password, w)
             else (getpass w,
                   w\<lparr>prompts := prompts w @ [''azkaban password for '' @ user1 @ '': '']\<rparr>))
      in (case post \<lparr>req_url = url,
                      req_data = [(''action'', ''login''), (''username'', user1),
                                  (''password'', password1)],
                      req_files = []\<rparr> w1 of
            (RaiseConnectionError, w2) \<Rightarrow> (Inl (AzkabanError UnableToConnect), w2)
          | (RaiseMissingSchema, w2) \<Rightarrow> (Inl (AzkabanError InvalidUrl), w2)
          | (Response body js, w2) \<Rightarrow>
              (case js of
                 None \<Rightarrow> (Inl (ValueError ''No JSON object could be decoded''), w2)
               | Some res \<Rightarrow>
                   (case map_of res ''error'' of
                      Some err \<Rightarrow> (Inl (AzkabanError (ServerError err)), w2)
                    | None \<Rightarrow>
                        (case map_of res ''session.id'' of
                           None \<Rightarrow> (Inl (KeyError ''session.id''), w2)
                         | Some session_id \<Rightarrow>
                             if truthy alias
                             then (case set_option parser (val alias) ''session_id'' session_id of
                                     Inl e \<Rightarrow> (Inl e, w2)
                                   | Inr parser1 \<Rightarrow>
                                       (Inr (url, session_id), write_config parser1 w2))
                             else (Inr (url, session_id), w2))))))"

text \<open>
  The first half: where the URL, the user and the cached session id come from. With an alias
  they are read from the credential file, and the \<open>url\<close> and \<open>user\<close> arguments are ignored.
  Without an alias there is no parser; the empty configuration returned in that case is never
  read.
\<close>

definition lookup ::
  "string option \<Rightarrow> string option \<Rightarrow> string option \<Rightarrow> world
    \<Rightarrow> (string \<times> string option \<times> string option \<times> config) result" where
  "lookup url user alias w =
     (if truthy alias then
        (let parser = read_config w in
         if \<not> has_section parser (val alias) then Inl (AzkabanError (MissingAlias (val alias)))
         else if \<not> has_option parser (val alias) ''url''
         then Inl (AzkabanError (MissingUrlForAlias (val alias)))
         else (case get parser (val alias) ''url'' of
                 Inl e \<Rightarrow> Inl e
               | Inr url1 \<Rightarrow>
                   (case get parser (val alias) ''user'' of
                      Inl e \<Rightarrow> Inl e
                    | Inr user1 \<Rightarrow>
                        (case get parser (val alias) ''session_id'' of
                           Inl e \<Rightarrow> Inl e
                         | Inr session_id \<Rightarrow>
                             Inr (url1, Some user1, Some session_id, parser)))))
      else if truthy url then Inr (val url, user, None, \<lparr>cfg_defaults = [], cfg_sections = []\<rparr>)
      else Inl (ValueError ''Either url or alias must be specified.''))"

definition get_credentials ::
  "string option \<Rightarrow> string option \<Rightarrow> string option \<Rightarrow> string option \<Rightarrow> world
    \<Rightarrow> (string \<times> string) result \<times> world" where
  "get_credentials url user password alias w =
     (case lookup url user alias w of
        Inl e \<Rightarrow> (Inl e, w)
      | Inr (url1, user1, session_id, parser) \<Rightarrow>
          (let url2 = rstrip url1 (CHR ''/'') in
           if \<not> truthy session_id then login url2 user1 password alias parser w
           else (case post \<lparr>req_url = url2 @ ''/manager'',
                             req_data = [(''session.id'', val session_id)],
                             req_files = []\<rparr> w of
                   (RaiseConnectionError, w1) \<Rightarrow> (Inl ConnectionError, w1)
                 | (RaiseMissingSchema, w1) \<Rightarrow> (Inl MissingSchema, w1)
                 | (Response body js, w1) \<Rightarrow>
                     if body \<noteq> [] then login url2 user1 password alias parser w1
                     else (Inr (url2, val session_id), w1))))"

section \<open>Remote operations\<close>

definition upload ::
  "nat \<Rightarrow> string \<Rightarrow> string option \<Rightarrow> string option \<Rightarrow> string option \<Rightarrow> string option \<Rightarrow> world
    \<Rightarrow> (string \<times> string) list result \<times> world" where
  "upload self archive url user password alias w =
     (case get_credentials url user password alias w of
        (Inl e, w1) \<Rightarrow> (Inl e, w1)
      | (Inr (url1, session_id), w1) \<Rightarrow>
          (case disk w1 archive of
             None \<Rightarrow> (Inl (AzkabanError (MissingArchive archive)), w1)
           | Some fobj \<Rightarrow>
               (case post \<lparr>req_url = url1 @ ''/manager'',
                            req_data = [(''ajax'', ''upload''), (''session.id'', session_id),
                                        (''project'', name (heap w1 self))],
                            req_files = [(''file'', ''file.zip'', fobj, ''application/zip'')]\<rparr> w1 of
                  (RaiseConnectionError, w2) \<Rightarrow> (Inl (AzkabanError UnableToConnect), w2)
                | (RaiseMissingSchema, w2) \<Rightarrow> (Inl (AzkabanError InvalidUrl), w2)
                | (Response body js, w2) \<Rightarrow>
                    (case js of
                       None \<Rightarrow> (Inl (ValueError ''No JSON object could be decoded''), w2)
                     | Some res \<Rightarrow>
                         (case map_of res ''error'' of
                            Some err \<Rightarrow> (Inl (AzkabanError (ServerError err)), w2)
                          | None \<Rightarrow>
                              if map_of res ''projectId'' = None
                              then (Inl (KeyError ''projectId''), w2)
                              else if map_of res ''version'' = None
                              then (Inl (KeyError ''version''), w2)
                              else (Inr res, w2))))))"

definition run ::
  "nat \<Rightarrow> string \<Rightarrow> string option \<Rightarrow> string option \<Rightarrow> string option \<Rightarrow> string option \<Rightarrow> world
    \<Rightarrow> (string \<times> string) list result \<times> world" where
  "run self flow url user password alias w =
     (case get_credentials url user password alias w of
        (Inl e, w1) \<Rightarrow> (Inl e, w1)
      | (Inr (url1, session_id), w1) \<Rightarrow>
          (case post \<lparr>req_url = url1 @ ''/executor'',
                       req_data = [(''ajax'', ''executeFlow''), (''session.id'', session_id),
                                   (''project'', name (heap w1 self)), (''flow'', flow)],
                       req_files = []\<rparr> w1 of
             (RaiseConnectionError, w2) \<Rightarrow> (Inl (AzkabanError UnableToConnect), w2)
           | (RaiseMissingSchema, w2) \<Rightarrow> (Inl (AzkabanError InvalidUrl), w2)
           | (Response body js, w2) \<Rightarrow>
               (case js of
                  None \<Rightarrow> (Inl (ValueError ''No JSON object could be decoded''), w2)
                | Some res \<Rightarrow>
                    (case map_of res ''error'' of
                       Some err \<Rightarrow> (Inl (AzkabanError (ServerError err)), w2)
                     | None \<Rightarrow>
                         if map_of res ''execid'' = None
                         then (Inl (KeyError ''execid''), w2)
                         else (Inr res, w2)))))"

section \<open>Command line\<close>

text \<open>
  The commands \<^verbatim>\<open>docopt\<close> hands to \<^verbatim>\<open>main\<close>, with the arguments each branch reads. The
  command \<^verbatim>\<open>list\<close>, which only prints, is left out.
\<close>

datatype command =
    Build string bool
  | Upload "string option" "string option" "string option" "string option"
  | Run string "string option" "string option" "string option"
  | View string

text \<open>
  The body of the \<^verbatim>\<open>try\<close> block of \<^verbatim>\<open>main\<close>. Without \<^verbatim>\<open>--zip\<close>, \<^verbatim>\<open>upload\<close> builds the archive
  at the path that \<^verbatim>\<open>temppath()\<close> hands out: no file exists there when the block is entered,
  and the file is removed when the block is left, by return or by exception. \<^verbatim>\<open>main\<close> passes no
  password to \<^verbatim>\<open>upload\<close> and \<^verbatim>\<open>run\<close>.
\<close>

definition dispatch :: "nat \<Rightarrow> command \<Rightarrow> world \<Rightarrow> unit result \<times> world" where
  "dispatch self cmd w =
     (case cmd of
        Build path overwrite \<Rightarrow> build self path overwrite w
      | Upload zpath url user alias \<Rightarrow>
          if truthy zpath then
            (case upload self (val zpath) url user None alias w of
               (Inl e, w1) \<Rightarrow> (Inl e, w1)
             | (Inr _, w1) \<Rightarrow> (Inr (), w1))
          else
            (let path = temppath w;
                 remove = (\<lambda>v. v\<lparr>disk := (disk v)(path := None)\<rparr>)
             in (case build self path False (remove w) of
                   (Inl e, w1) \<Rightarrow> (Inl e, remove w1)
                 | (Inr _, w1) \<Rightarrow>
                     (case upload self path url user None alias w1 of
                        (Inl e, w2) \<Rightarrow> (Inl e, remove w2)
                      | (Inr _, w2) \<Rightarrow> (Inr (), remove w2))))
      | Run flow url user alias \<Rightarrow>
          (case run self flow url user None alias w of
             (Inl e, w1) \<Rightarrow> (Inl e, w1)
           | (Inr _, w1) \<Rightarrow> (Inr (), w1))
      | View job_name \<Rightarrow>
          (case map_of (jobs (heap w self)) job_name of
             Some j \<Rightarrow> (Inr (), w\<lparr>printed := printed w @ [build_options j]\<rparr>)
           | None \<Rightarrow> (Inl (AzkabanError (MissingJob job_name)), w)))"

text \<open>
  \<^verbatim>\<open>main\<close>: unless \<^verbatim>\<open>--quiet\<close> is given, the logger gets a handler from
  \<^verbatim>\<open>get_formatted_stream_handler\<close>, a name the module neither defines nor imports, so the
  call raises \<^verbatim>\<open>NameError\<close>. An \<^verbatim>\<open>AzkabanError\<close> raised by the command is handed to
  \<^verbatim>\<open>logger.error\<close>, and \<^verbatim>\<open>exit(1)\<close> raises \<^verbatim>\<open>SystemExit\<close>; any other exception passes through.
\<close>

definition main :: "nat \<Rightarrow> bool \<Rightarrow> command \<Rightarrow> world \<Rightarrow> unit result \<times> world" where
  "main self quiet cmd w =
     (if \<not> quiet then (Inl (NameError ''get_formatted_stream_handler''), w)
      else (case dispatch self cmd w of
              (Inl (AzkabanError err), w1) \<Rightarrow> (Inl (SystemExit 1), w1\<lparr>errors := errors w1 @ [err]\<rparr>)
            | (r, w1) \<Rightarrow> (r, w1)))"

section \<open>Vocabulary of the properties and sample states\<close>

text \<open>
  A job of type \<^verbatim>\<open>noop\<close> and a world in which every project is the empty project
  \<^verbatim>\<open>Project('foo')\<close>, one file exists on disk, files can be created at two paths under
  \<^verbatim>\<open>/tmp\<close>, there is no credential file and no server can be reached. The concrete instances
  of the theorems below start from them.
\<close>

definition noop :: job where
  "noop = \<lparr>build_options = [(''type'', ''noop'')]\<rparr>"

definition sample :: world where
  "sample =
     \<lparr>heap = (\<lambda>_. \<lparr>name = ''foo'', jobs = [], files = []\<rparr>),
      disk = [''/some/file.path'' \<mapsto> Text ''data''],
      rcfile = None,
      server = (\<lambda>_ _. RaiseConnectionError),
      posted = [],
      getuser = ''user'',
      getpass = ''secret'',
      prompts = [],
      errors = [],
      printed = [],
      temppath = ''/tmp/tmp0'',
      writable = (\<lambda>path. path = ''/tmp/foo.zip'' \<or> path = ''/tmp/tmp0'')\<rparr>"

text \<open>
  The sample world after \<^verbatim>\<open>add_file('/some/file.path')\<close> on project 0, once the file has
  been deleted from disk.
\<close>

definition stale :: world where
  "stale = (snd (add_file 0 ''/some/file.path'' None sample))\<lparr>disk := Map.empty\<rparr>"

text \<open>
  A project holds the items of a list: each name is bound to its job, each path to its
  archive path.
\<close>

definition has_jobs :: "world \<Rightarrow> nat \<Rightarrow> (string \<times> job) list \<Rightarrow> bool" where
  "has_jobs w p items = (\<forall>(n, j) \<in> set items. map_of (jobs (heap w p)) n = Some j)"

definition has_files :: "world \<Rightarrow> nat \<Rightarrow> (string \<times> string option) list \<Rightarrow> bool" where
  "has_files w p items = (\<forall>(path, a) \<in> set items. map_of (files (heap w p)) path = Some a)"

text \<open>
  Worlds for \<^verbatim>\<open>merge_into\<close>. In \<open>source\<close>, project 0 holds the jobs \<^verbatim>\<open>bar\<close> and \<^verbatim>\<open>baz\<close> and the
  file \<^verbatim>\<open>/some/file.path\<close>, and project 1 is empty. In \<open>clash\<close>, project 1 already holds a job
  \<^verbatim>\<open>baz\<close>. In \<open>clash_file\<close>, project 1 already holds the file under another archive path.
\<close>

definition shell :: job where
  "shell = \<lparr>build_options = [(''type'', ''command''), (''command'', ''ls'')]\<rparr>"

definition source :: world where
  "source =
     snd (add_file 0 ''/some/file.path'' None
       (snd (add_job 0 ''baz'' shell (snd (add_job 0 ''bar'' noop sample)))))"

definition clash :: world where
  "clash = snd (add_job 1 ''baz'' noop source)"

definition clash_file :: world where
  "clash_file = snd (add_file 1 ''/some/file.path'' (Some ''lib/file.path'') source)"

text \<open>
  What \<^verbatim>\<open>build\<close> is to put into the archive: for a job the entry \<^verbatim>\<open>name.job\<close> holding the job
  text; for a registered file an entry under its archive path holding what the file holds
  (\<open>archived\<close>; for the archive's own path, whatever the archive held when it was read).
\<close>

definition job_entry :: "string \<times> job \<Rightarrow> string option \<times> content" where
  "job_entry item = (Some (fst item @ ''.job''), Text (job_text (snd item)))"

definition archived ::
  "world \<Rightarrow> string \<Rightarrow> string \<times> string option \<Rightarrow> string option \<times> content \<Rightarrow> bool" where
  "archived w zpath item entry =
     (fst entry = snd item \<and> (fst item = zpath \<or> disk w (fst item) = Some (snd entry)))"

text \<open>The four requests of the module, as \<^verbatim>\<open>post\<close> receives them.\<close>

abbreviation probe_request :: "string \<Rightarrow> string \<Rightarrow> request" where
  "probe_request url session_id \<equiv>
     \<lparr>req_url = url @ ''/manager'', req_data = [(''session.id'', session_id)], req_files = []\<rparr>"

abbreviation login_request :: "string \<Rightarrow> string \<Rightarrow> string \<Rightarrow> request" where
  "login_request url user password \<equiv>
     \<lparr>req_url = url,
      req_data = [(''action'', ''login''), (''username'', user), (''password'', password)],
      req_files = []\<rparr>"

abbreviation upload_request :: "string \<Rightarrow> string \<Rightarrow> string \<Rightarrow> content \<Rightarrow> request" where
  "upload_request url session_id pname archive \<equiv>
     \<lparr>req_url = url @ ''/manager'',
      req_data = [(''ajax'', ''upload''), (''session.id'', session_id), (''project'', pname)],
      req_files = [(''file'', ''file.zip'', archive, ''application/zip'')]\<rparr>"

abbreviation run_request :: "string \<Rightarrow> string \<Rightarrow> string \<Rightarrow> string \<Rightarrow> request" where
  "run_request url session_id pname flow \<equiv>
     \<lparr>req_url = url @ ''/executor'',
      req_data = [(''ajax'', ''executeFlow''), (''session.id'', session_id),
                  (''project'', pname), (''flow'', flow)],
      req_files = []\<rparr>"

text \<open>
  A server at \<^verbatim>\<open>http://host:8081\<close> that knows the password \<^verbatim>\<open>secret\<close>, the session
  \<^verbatim>\<open>token1\<close>, the project \<^verbatim>\<open>foo\<close> and the flow \<^verbatim>\<open>bar\<close>. It answers the probe of a valid session
  with an empty body and that of any other with a login page.
\<close>

definition azkaban :: "request list \<Rightarrow> request \<Rightarrow> reply" where
  "azkaban history r =
     (if req_url r = ''http://host:8081'' then
        (if map_of (req_data r) ''password'' = Some ''secret''
         then Response ''{status, session.id}''
                (Some [(''status'', ''success''), (''session.id'', ''token1'')])
         else Response ''{error}'' (Some [(''error'', ''Incorrect Login.'')]))
      else if req_url r = ''http://host:8081/manager'' then
        (if map_of (req_data r) ''ajax'' = Some ''upload'' then
           (if map_of (req_data r) ''project'' = Some ''foo''
            then Response ''{projectId, version}''
                   (Some [(''projectId'', ''1''), (''version'', ''1'')])
            else Response ''{error}'' (Some [(''error'', ''Project not found.'')]))
         else if map_of (req_data r) ''session.id'' = Some ''token1'' then Response [] None
         else Response ''<html>'' None)
      else if req_url r = ''http://host:8081/executor'' then
        (if map_of (req_data r) ''flow'' = Some ''bar''
         then Response ''{message, project, flow, execid}''
                (Some [(''message'', ''Execution submitted successfully with exec id 5''),
                       (''project'', ''foo''), (''flow'', ''bar''), (''execid'', ''5'')])
         else Response ''{error}'' (Some [(''error'', ''Flow not found.'')]))
      else RaiseConnectionError)"

text \<open>A server that logs everybody in and answers everything else with an empty JSON object.\<close>

definition silent :: "request list \<Rightarrow> request \<Rightarrow> reply" where
  "silent history r =
     (if map_of (req_data r) ''action'' = Some ''login''
      then Response ''{session.id}'' (Some [(''session.id'', ''token1'')])
      else Response ''{}'' (Some []))"

text \<open>
  The sample world with the server reachable; with a credential file whose alias \<^verbatim>\<open>prod\<close>
  caches the valid session; and with one whose cached session has expired.
\<close>

definition online :: world where
  "online = sample\<lparr>server := azkaban\<rparr>"

definition cached :: world where
  "cached = online\<lparr>rcfile := Some
     \<lparr>cfg_defaults = [],
      cfg_sections = [(''prod'', [(''url'', ''http://host:8081/''), (''user'', ''alice''),
                                 (''session_id'', ''token1'')])]\<rparr>\<rparr>"

definition expired :: world where
  "expired = online\<lparr>rcfile := Some
     \<lparr>cfg_defaults = [],
      cfg_sections = [(''prod'', [(''url'', ''http://host:8081/''), (''user'', ''alice''),
                                 (''session_id'', ''token0'')])]\<rparr>\<rparr>"

text \<open>
  What \<^verbatim>\<open>user or getuser()\<close> and \<^verbatim>\<open>password or getpass(...)\<close> evaluate to, and the world after
  the second: the prompt is shown only when no password was supplied.
\<close>

definition login_user :: "string option \<Rightarrow> world \<Rightarrow> string" where
  "login_user user w = (if truthy user then val user else getuser w)"

definition login_password :: "string option \<Rightarrow> world \<Rightarrow> string" where
  "login_password password w = (if truthy password then val password else getpass w)"

definition prompted :: "string option \<Rightarrow> string option \<Rightarrow> world \<Rightarrow> world" where
  "prompted user password w =
     (if truthy password then w
      else w\<lparr>prompts := prompts w @ [''azkaban password for '' @ login_user user w @ '': '']\<rparr>)"

text \<open>The sample world with the server that answers with empty objects.\<close>

definition mute :: world where
  "mute = sample\<lparr>server := silent\<rparr>"

text \<open>The world with the cached session in which every project is called \<^verbatim>\<open>nobody\<close>.\<close>

definition stranger :: world where
  "stranger = cached\<lparr>heap := (\<lambda>_. \<lparr>name = ''nobody'', jobs = [], files = []\<rparr>)\<rparr>"

text \<open>The online world with a credential file whose alias \<^verbatim>\<open>prod\<close> has no \<^verbatim>\<open>url\<close>.\<close>

definition nourl :: world where
  "nourl = online\<lparr>rcfile := Some
     \<lparr>cfg_defaults = [], cfg_sections = [(''prod'', [(''user'', ''alice'')])]\<rparr>\<rparr>"

text \<open>
  The sample world with a server that answers every request in the given way; and the world
  with the cached session whose server accepts the first request, the probe, and answers
  every later one in the given way.
\<close>

definition failing :: "reply \<Rightarrow> world" where
  "failing r = sample\<lparr>server := (\<lambda>history request. r)\<rparr>"

definition dropping :: "reply \<Rightarrow> world" where
  "dropping r = cached\<lparr>server := (\<lambda>history request. if history = [] then Response [] None else r)\<rparr>"

section \<open>Frame and invariant lemmas\<close>

lemma add_job_cases:
  "add_job self jname j w = (r, w') \<Longrightarrow>
     (r = Inl (AzkabanError (DuplicateJobName jname)) \<and> w' = w \<and>
        map_of (jobs (heap w self)) jname \<noteq> None) \<or>
     (r = Inr () \<and> w' = set_jobs self (AList.update jname j (jobs (heap w self))) w \<and>
        map_of (jobs (heap w self)) jname = None)"
  by (auto simp: add_job_def on_add_def split: if_splits)

lemma add_file_cases:
  "add_file self path archive_path w = (r, w') \<Longrightarrow>
     (\<exists>m. r = Inl (AzkabanError m) \<and> w' = w) \<or>
     (r = Inr () \<and> w' = w \<and> map_of (files (heap w self)) path = Some archive_path) \<or>
     (r = Inr () \<and> w' = set_files self (AList.update path archive_path (files (heap w self))) w \<and>
        map_of (files (heap w self)) path = None)"
  by (auto simp: add_file_def split: if_splits option.splits)

lemma heap_set_jobs [simp]:
  "heap (set_jobs self js w) r = (if r = self then (heap w self)\<lparr>jobs := js\<rparr> else heap w r)"
  by (simp add: set_jobs_def)

lemma heap_set_files [simp]:
  "heap (set_files self fs w) r = (if r = self then (heap w self)\<lparr>files := fs\<rparr> else heap w r)"
  by (simp add: set_files_def)

lemma disk_set_jobs [simp]: "disk (set_jobs self js w) = disk w"
  by (simp add: set_jobs_def)

lemma disk_set_files [simp]: "disk (set_files self fs w) = disk w"
  by (simp add: set_files_def)

lemma exists_set_jobs [simp]: "exists (set_jobs self js w) = exists w"
  by (simp add: exists_def fun_eq_iff)

lemma exists_set_files [simp]: "exists (set_files self fs w) = exists w"
  by (simp add: exists_def fun_eq_iff)

lemma add_job_distinct:
  assumes "distinct (map fst (jobs (heap w r)))"
  shows "distinct (map fst (jobs (heap (snd (add_job self jname j w)) r)))"
  using assms by (auto simp: add_job_def on_add_def intro: distinct_update)

lemma add_job_files: "files (heap (snd (add_job self jname j w)) r) = files (heap w r)"
  by (simp add: add_job_def on_add_def)

lemma add_file_jobs: "jobs (heap (snd (add_file self path a w)) r) = jobs (heap w r)"
  by (simp add: add_file_def split: option.splits)

lemma add_jobs_distinct:
  "distinct (map fst (jobs (heap w r))) \<Longrightarrow>
     distinct (map fst (jobs (heap (snd (add_jobs project items w)) r)))"
proof (induction items arbitrary: w)
  case Nil
  then show ?case by simp
next
  case (Cons x items)
  obtain jname j where x: "x = (jname, j)" by (cases x)
  obtain res w1 where s: "add_job project jname j w = (res, w1)" by (cases "add_job project jname j w")
  have d: "distinct (map fst (jobs (heap w1 r)))"
    using add_job_distinct [OF Cons.prems, of project jname j] s by simp
  show ?case
  proof (cases res)
    case (Inl e)
    then show ?thesis using x s d by simp
  next
    case (Inr u)
    then show ?thesis using x s Cons.IH [OF d] by simp
  qed
qed

lemma add_files_jobs: "jobs (heap (snd (add_files project items w)) r) = jobs (heap w r)"
proof (induction items arbitrary: w)
  case Nil
  then show ?case by simp
next
  case (Cons x items)
  obtain path a where x: "x = (path, a)" by (cases x)
  obtain res w1 where s: "add_file project path a w = (res, w1)" by (cases "add_file project path a w")
  have d: "jobs (heap w1 r) = jobs (heap w r)"
    using add_file_jobs [of project path a w r] s by simp
  show ?case
  proof (cases res)
    case (Inl e)
    then show ?thesis using x s d by simp
  next
    case (Inr u)
    then show ?thesis using x s Cons.IH [of w1] d by simp
  qed
qed

lemma merge_into_distinct:
  assumes "distinct (map fst (jobs (heap w r)))"
  shows "distinct (map fst (jobs (heap (snd (merge_into self project w)) r)))"
proof -
  obtain res w1 where s: "add_jobs project (jobs (heap w self)) w = (res, w1)"
    by (cases "add_jobs project (jobs (heap w self)) w")
  have d: "distinct (map fst (jobs (heap w1 r)))"
    using add_jobs_distinct [OF assms, of project "jobs (heap w self)"] s by simp
  show ?thesis
  proof (cases res)
    case (Inl e)
    then show ?thesis using s d by (simp add: merge_into_def)
  next
    case (Inr u)
    then show ?thesis using s d by (simp add: merge_into_def add_files_jobs)
  qed
qed

lemma write_jobs_heap: "heap (snd (write_jobs self zpath items w)) = heap w"
  by (induction items arbitrary: w) (auto simp: on_build_def append_entry_def)

lemma write_files_heap: "heap (snd (write_files zpath items w)) = heap w"
proof (induction items arbitrary: w)
  case Nil
  then show ?case by simp
next
  case (Cons x items)
  obtain fpath apath where x: "x = (fpath, apath)" by (cases x)
  show ?case
    using Cons.IH
    by (cases "disk w fpath") (simp_all add: x writer_write_def append_entry_def)
qed

lemma ZipFile_heap: "heap (snd (ZipFile zpath w)) = heap w"
  by (simp add: ZipFile_def)

lemma build_heap: "heap (snd (build self path overwrite w)) = heap w"
proof -
  obtain opened w0 where z: "ZipFile path w = (opened, w0)"
    by (cases "ZipFile path w")
  have h0: "heap w0 = heap w"
    using ZipFile_heap [of path w] z by simp
  obtain res w1 where s: "write_jobs self path (jobs (heap w self)) w0 = (res, w1)"
    by (cases "write_jobs self path (jobs (heap w self)) w0")
  have h: "heap w1 = heap w"
    using write_jobs_heap [of self path "jobs (heap w self)" w0] s h0 by simp
  have f: "heap (snd (write_files path (files (heap w self)) w1)) = heap w"
    using write_files_heap [of path "files (heap w self)" w1] h by simp
  show ?thesis
    using z s h0 h f by (cases opened; cases res) (simp_all add: build_def)
qed

section \<open>Jobs\<close>

text \<open>
  Claim C4. \<^verbatim>\<open>add_job(name, job)\<close> raises \<^verbatim>\<open>AzkabanError\<close> when a job with that name is
  already present, leaving the world as it was, and otherwise registers the job under that
  name. Job names stay unique in every project of the store after \<^verbatim>\<open>add_job\<close>, \<^verbatim>\<open>add_file\<close>,
  \<^verbatim>\<open>merge_into\<close> and \<^verbatim>\<open>build\<close>, whether the call returns or raises.
\<close>

theorem add_job_unique_names:
  "(map_of (jobs (heap w self)) jname \<noteq> None \<longrightarrow>
      add_job self jname j w = (Inl (AzkabanError (DuplicateJobName jname)), w)) \<and>
   (map_of (jobs (heap w self)) jname = None \<longrightarrow>
      fst (add_job self jname j w) = Inr () \<and>
      map_of (jobs (heap (snd (add_job self jname j w)) self)) =
        (map_of (jobs (heap w self)))(jname \<mapsto> j)) \<and>
   (distinct (map fst (jobs (heap w r))) \<longrightarrow>
      distinct (map fst (jobs (heap (snd (add_job self jname j w)) r))) \<and>
      distinct (map fst (jobs (heap (snd (add_file self path archive_path w)) r))) \<and>
      distinct (map fst (jobs (heap (snd (merge_into self project w)) r))) \<and>
      distinct (map fst (jobs (heap (snd (build self path overwrite w)) r))))"
proof (intro conjI impI)
  assume "map_of (jobs (heap w self)) jname \<noteq> None"
  then show "add_job self jname j w = (Inl (AzkabanError (DuplicateJobName jname)), w)"
    by (simp add: add_job_def)
next
  assume a: "map_of (jobs (heap w self)) jname = None"
  show "fst (add_job self jname j w) = Inr ()"
    using a by (simp add: add_job_def on_add_def)
  show "map_of (jobs (heap (snd (add_job self jname j w)) self)) =
        (map_of (jobs (heap w self)))(jname \<mapsto> j)"
    using a by (simp add: add_job_def on_add_def update_conv')
next
  assume d: "distinct (map fst (jobs (heap w r)))"
  show "distinct (map fst (jobs (heap (snd (add_job self jname j w)) r)))"
    by (rule add_job_distinct [OF d])
  show "distinct (map fst (jobs (heap (snd (add_file self path archive_path w)) r)))"
    using d by (simp add: add_file_jobs)
  show "distinct (map fst (jobs (heap (snd (merge_into self project w)) r)))"
    by (rule merge_into_distinct [OF d])
  show "distinct (map fst (jobs (heap (snd (build self path overwrite w)) r)))"
    using d by (simp add: build_heap)
qed

theorem add_job_unique_names_witness:
  "map_of (jobs (heap sample 0)) ''bar'' = None \<and>
   fst (add_job 0 ''bar'' noop sample) = Inr () \<and>
   map_of (jobs (heap (snd (add_job 0 ''bar'' noop sample)) 0)) ''bar'' = Some noop \<and>
   map_of (jobs (heap (snd (add_job 0 ''bar'' noop sample)) 0)) ''bar'' \<noteq> None \<and>
   add_job 0 ''bar'' noop (snd (add_job 0 ''bar'' noop sample)) =
     (Inl (AzkabanError (DuplicateJobName ''bar'')), snd (add_job 0 ''bar'' noop sample)) \<and>
   distinct (map fst (jobs (heap sample 0))) \<and>
   distinct (map fst (jobs (heap (snd (add_job 0 ''bar'' noop sample)) 0)))"
proof -
  have absent: "map_of (jobs (heap sample 0)) ''bar'' = None"
    by (simp add: sample_def)
  have uniq: "distinct (map fst (jobs (heap sample 0)))"
    by (simp add: sample_def)
  note first = add_job_unique_names [of sample 0 "''bar''" noop 0 "''/some/file.path''" None 0 False]
  have added: "map_of (jobs (heap (snd (add_job 0 ''bar'' noop sample)) 0)) ''bar'' = Some noop"
    using first absent by simp
  note again = add_job_unique_names
    [of "snd (add_job 0 ''bar'' noop sample)" 0 "''bar''" noop 0 "''/some/file.path''" None 0 False]
  show ?thesis
    using first again absent uniq added by simp
qed

section \<open>Files\<close>

text \<open>
  Claim C3, as stated: \<^verbatim>\<open>add_file\<close> raises \<^verbatim>\<open>AzkabanError\<close> whenever the path does not exist
  on disk. It does not: for a path that is already registered with the same archive
  destination the \<^verbatim>\<open>elif\<close> branch returns before \<^verbatim>\<open>exists\<close> is called. In the world below
  the file was registered and then deleted; registering it again succeeds.
\<close>

theorem add_file_missing_counterexample:
  "\<not> exists stale ''/some/file.path'' \<and>
   add_file 0 ''/some/file.path'' None stale = (Inr (), stale)"
  by (simp add: stale_def sample_def add_file_def exists_def isabs_def set_files_def)

text \<open>
  Claim C3, amended. \<^verbatim>\<open>add_file(path, archive_path)\<close> raises \<^verbatim>\<open>AzkabanError\<close>, and changes
  nothing, when the path is relative; when the path is already registered with a different
  archive destination; and when the path is not yet registered and does not exist on disk.
\<close>

theorem add_file_errors:
  "(\<not> isabs path \<longrightarrow>
      add_file self path archive_path w = (Inl (AzkabanError (RelativePath path)), w)) \<and>
   (map_of (files (heap w self)) path = Some registered \<and> registered \<noteq> archive_path \<longrightarrow>
      add_file self path archive_path w =
        (Inl (AzkabanError
           (if isabs path then InconsistentDuplicate path else RelativePath path)), w)) \<and>
   (map_of (files (heap w self)) path = None \<and> \<not> exists w path \<longrightarrow>
      add_file self path archive_path w =
        (Inl (AzkabanError (if isabs path then MissingFile path else RelativePath path)), w))"
  by (simp add: add_file_def)

theorem add_file_errors_witness:
  "\<not> isabs ''file.path'' \<and>
   add_file 0 ''file.path'' None sample = (Inl (AzkabanError (RelativePath ''file.path'')), sample) \<and>
   map_of (files (heap stale 0)) ''/some/file.path'' = Some None \<and>
   None \<noteq> Some ''lib/file.path'' \<and>
   add_file 0 ''/some/file.path'' (Some ''lib/file.path'') stale =
     (Inl (AzkabanError (InconsistentDuplicate ''/some/file.path'')), stale) \<and>
   map_of (files (heap sample 0)) ''/no/such.file'' = None \<and>
   \<not> exists sample ''/no/such.file'' \<and>
   add_file 0 ''/no/such.file'' None sample =
     (Inl (AzkabanError (MissingFile ''/no/such.file'')), sample)"
proof -
  have rel: "\<not> isabs ''file.path''"
    by (simp add: isabs_def)
  have reg: "map_of (files (heap stale 0)) ''/some/file.path'' = Some None"
    by (simp add: stale_def sample_def add_file_def exists_def isabs_def)
  have abs1: "isabs ''/some/file.path''" and abs2: "isabs ''/no/such.file''"
    by (simp_all add: isabs_def)
  have unreg: "map_of (files (heap sample 0)) ''/no/such.file'' = None"
    by (simp add: sample_def)
  have gone: "\<not> exists sample ''/no/such.file''"
    by (simp add: sample_def exists_def)
  have diff: "(None :: string option) \<noteq> Some ''lib/file.path''"
    by simp
  have c1: "add_file 0 ''file.path'' None sample =
      (Inl (AzkabanError (RelativePath ''file.path'')), sample)"
    using add_file_errors [where path = "''file.path''" and self = 0 and archive_path = None
        and w = sample] rel
    by blast
  have "add_file 0 ''/some/file.path'' (Some ''lib/file.path'') stale =
      (Inl (AzkabanError (if isabs ''/some/file.path'' then InconsistentDuplicate ''/some/file.path''
         else RelativePath ''/some/file.path'')), stale)"
    using add_file_errors [where path = "''/some/file.path''" and self = 0
        and archive_path = "Some ''lib/file.path''" and w = stale and registered = None] reg diff
    by blast
  then have c2: "add_file 0 ''/some/file.path'' (Some ''lib/file.path'') stale =
      (Inl (AzkabanError (InconsistentDuplicate ''/some/file.path'')), stale)"
    using abs1 by simp
  have "add_file 0 ''/no/such.file'' None sample =
      (Inl (AzkabanError (if isabs ''/no/such.file'' then MissingFile ''/no/such.file''
         else RelativePath ''/no/such.file'')), sample)"
    using add_file_errors [where path = "''/no/such.file''" and self = 0 and archive_path = None
        and w = sample] unreg gone
    by blast
  then have c3: "add_file 0 ''/no/such.file'' None sample =
      (Inl (AzkabanError (MissingFile ''/no/such.file'')), sample)"
    using abs2 by simp
  show ?thesis
    using rel reg diff unreg gone c1 c2 c3 by blast
qed

text \<open>
  Claim C9. \<^verbatim>\<open>add_file\<close> is idempotent on a registered file: with the same path and the same
  archive destination it returns without changing anything, whatever the disk holds. This is
  so for an absolute path registered with that destination, and in particular in every world
  whose store is the one a successful \<^verbatim>\<open>add_file\<close> left, whatever has happened to the disk
  since.
\<close>

theorem add_file_idempotent:
  "(isabs path \<and> map_of (files (heap w self)) path = Some archive_path \<longrightarrow>
      add_file self path archive_path (w\<lparr>disk := d\<rparr>) = (Inr (), w\<lparr>disk := d\<rparr>)) \<and>
   (fst (add_file self path archive_path w) = Inr () \<and>
    heap w' = heap (snd (add_file self path archive_path w)) \<longrightarrow>
      add_file self path archive_path w' = (Inr (), w'))"
proof (intro conjI impI)
  assume "isabs path \<and> map_of (files (heap w self)) path = Some archive_path"
  then show "add_file self path archive_path (w\<lparr>disk := d\<rparr>) = (Inr (), w\<lparr>disk := d\<rparr>)"
    by (simp add: add_file_def)
next
  assume a: "fst (add_file self path archive_path w) = Inr () \<and>
    heap w' = heap (snd (add_file self path archive_path w))"
  then have "isabs path \<and> map_of (files (heap w' self)) path = Some archive_path"
    by (auto simp: add_file_def update_conv' split: if_splits option.splits)
  then show "add_file self path archive_path w' = (Inr (), w')"
    by (simp add: add_file_def)
qed

theorem add_file_idempotent_witness:
  "fst (add_file 0 ''/some/file.path'' None sample) = Inr () \<and>
   heap stale = heap (snd (add_file 0 ''/some/file.path'' None sample)) \<and>
   disk stale ''/some/file.path'' = None \<and>
   add_file 0 ''/some/file.path'' None stale = (Inr (), stale) \<and>
   isabs ''/some/file.path'' \<and>
   map_of (files (heap stale 0)) ''/some/file.path'' = Some None \<and>
   add_file 0 ''/some/file.path'' None (stale\<lparr>disk := disk sample\<rparr>) =
     (Inr (), stale\<lparr>disk := disk sample\<rparr>)"
proof -
  have ok: "fst (add_file 0 ''/some/file.path'' None sample) = Inr ()"
    by (simp add: sample_def add_file_def exists_def isabs_def)
  have same: "heap stale = heap (snd (add_file 0 ''/some/file.path'' None sample))"
    by (simp add: stale_def)
  have gone: "disk stale ''/some/file.path'' = None"
    by (simp add: stale_def)
  have abs: "isabs ''/some/file.path''"
    by (simp add: isabs_def)
  have reg: "map_of (files (heap stale 0)) ''/some/file.path'' = Some None"
    by (simp add: stale_def sample_def add_file_def exists_def isabs_def)
  have again: "add_file 0 ''/some/file.path'' None stale = (Inr (), stale)"
    using add_file_idempotent [where path = "''/some/file.path''" and self = 0
        and archive_path = None and w = sample and w' = stale] ok same
    by blast
  have restored: "add_file 0 ''/some/file.path'' None (stale\<lparr>disk := disk sample\<rparr>) =
      (Inr (), stale\<lparr>disk := disk sample\<rparr>)"
    using add_file_idempotent [where path = "''/some/file.path''" and self = 0
        and archive_path = None and w = stale and d = "disk sample"] abs reg
    by blast
  show ?thesis
    using ok same gone abs reg again restored by blast
qed

section \<open>The loops of merge_into\<close>

lemma add_job_Inr:
  "add_job p n j w = (Inr u, w') \<Longrightarrow>
     map_of (jobs (heap w p)) n = None \<and>
     w' = set_jobs p (AList.update n j (jobs (heap w p))) w"
  by (auto simp: add_job_def on_add_def split: if_splits)

lemma add_job_Inl:
  "add_job p n j w = (Inl e, w') \<Longrightarrow>
     w' = w \<and> e = AzkabanError (DuplicateJobName n) \<and> map_of (jobs (heap w p)) n \<noteq> None"
  by (auto simp: add_job_def on_add_def split: if_splits)

lemma add_file_Inr:
  "add_file p path a w = (Inr u, w') \<Longrightarrow>
     (map_of (files (heap w p)) path = Some a \<and> w' = w) \<or>
     (map_of (files (heap w p)) path = None \<and>
      w' = set_files p (AList.update path a (files (heap w p))) w)"
  by (auto simp: add_file_def split: if_splits option.splits)

lemma add_file_Inl:
  "add_file p path a w = (Inl e, w') \<Longrightarrow> w' = w \<and> (\<exists>m. e = AzkabanError m)"
  by (auto simp: add_file_def split: if_splits option.splits)

text \<open>A property kept by every call of the loop body is kept by the loop.\<close>

lemma add_jobs_invariant:
  assumes "P w"
    and "\<And>n j v. P v \<Longrightarrow> P (snd (add_job project n j v))"
  shows "P (snd (add_jobs project items w))"
  using assms(1)
proof (induction items arbitrary: w)
  case Nil
  then show ?case by simp
next
  case (Cons x items)
  obtain n j where x: "x = (n, j)" by (cases x)
  obtain res w1 where s: "add_job project n j w = (res, w1)" by (cases "add_job project n j w")
  have p1: "P w1" using assms(2) [OF Cons.prems, of n j] s by simp
  show ?case
    using x s p1 Cons.IH [OF p1] by (cases res) simp_all
qed

lemma add_files_invariant:
  assumes "P w"
    and "\<And>path a v. P v \<Longrightarrow> P (snd (add_file project path a v))"
  shows "P (snd (add_files project items w))"
  using assms(1)
proof (induction items arbitrary: w)
  case Nil
  then show ?case by simp
next
  case (Cons x items)
  obtain path a where x: "x = (path, a)" by (cases x)
  obtain res w1 where s: "add_file project path a w = (res, w1)"
    by (cases "add_file project path a w")
  have p1: "P w1" using assms(2) [OF Cons.prems, of path a] s by simp
  show ?case
    using x s p1 Cons.IH [OF p1] by (cases res) simp_all
qed

text \<open>What one call keeps: bindings already made, and everything outside the project.\<close>

lemma add_job_keeps:
  "map_of (jobs (heap w r)) k = Some v \<Longrightarrow>
     map_of (jobs (heap (snd (add_job p n j w)) r)) k = Some v"
  by (auto simp: add_job_def on_add_def update_conv')

lemma add_file_keeps:
  "map_of (files (heap w r)) k = Some v \<Longrightarrow>
     map_of (files (heap (snd (add_file p path a w)) r)) k = Some v"
  by (auto simp: add_file_def update_conv' split: option.splits)

lemma add_job_others: "r \<noteq> p \<Longrightarrow> heap (snd (add_job p n j w)) r = heap w r"
  by (simp add: add_job_def on_add_def)

lemma add_file_others: "r \<noteq> p \<Longrightarrow> heap (snd (add_file p path a w)) r = heap w r"
  by (simp add: add_file_def split: option.splits)

lemma add_job_name: "name (heap (snd (add_job p n j w)) r) = name (heap w r)"
  by (simp add: add_job_def on_add_def)

lemma add_file_name: "name (heap (snd (add_file p path a w)) r) = name (heap w r)"
  by (simp add: add_file_def split: option.splits)

lemma add_file_files_others:
  "files (heap (snd (add_file p path a w)) r) = files (heap w r) \<or> r = p"
  by (simp add: add_file_def split: option.splits)

lemma add_job_rest: "(snd (add_job p n j w))\<lparr>heap := h\<rparr> = w\<lparr>heap := h\<rparr>"
  by (simp add: add_job_def on_add_def set_jobs_def)

lemma add_file_rest: "(snd (add_file p path a w))\<lparr>heap := h\<rparr> = w\<lparr>heap := h\<rparr>"
  by (simp add: add_file_def set_files_def split: option.splits)

text \<open>A loop that returns has registered every item; it found every name free.\<close>

lemma add_jobs_Inr:
  "add_jobs p items w = (Inr u, w') \<Longrightarrow> (n, j) \<in> set items \<Longrightarrow>
     map_of (jobs (heap w p)) n = None \<and> map_of (jobs (heap w' p)) n = Some j"
proof (induction items arbitrary: w)
  case Nil
  then show ?case by simp
next
  case (Cons x items)
  obtain n0 j0 where x: "x = (n0, j0)" by (cases x)
  obtain res w1 where s: "add_job p n0 j0 w = (res, w1)" by (cases "add_job p n0 j0 w")
  from Cons.prems(1) x s obtain u1 where res: "res = Inr u1" and rest: "add_jobs p items w1 = (Inr u, w')"
    by (cases res) auto
  from s res have fresh: "map_of (jobs (heap w p)) n0 = None"
    and w1: "w1 = set_jobs p (AList.update n0 j0 (jobs (heap w p))) w"
    using add_job_Inr by blast+
  have m1: "map_of (jobs (heap w1 p)) = (map_of (jobs (heap w p)))(n0 \<mapsto> j0)"
    using w1 by (simp add: update_conv')
  have keep: "map_of (jobs (heap w' p)) n0 = Some j0"
  proof -
    have "map_of (jobs (heap w1 p)) n0 = Some j0" using m1 by simp
    then have "map_of (jobs (heap (snd (add_jobs p items w1)) p)) n0 = Some j0"
      by (rule add_jobs_invariant) (rule add_job_keeps)
    then show ?thesis using rest by simp
  qed
  show ?case
  proof (cases "(n, j) \<in> set items")
    case True
    from Cons.IH [OF rest True]
    have a: "map_of (jobs (heap w1 p)) n = None" and b: "map_of (jobs (heap w' p)) n = Some j"
      by blast+
    from a m1 have "n \<noteq> n0" by auto
    with a m1 have "map_of (jobs (heap w p)) n = None" by simp
    with b show ?thesis by blast
  next
    case False
    with Cons.prems(2) x have "n = n0" "j = j0" by auto
    with fresh keep show ?thesis by blast
  qed
qed

lemma add_files_Inr:
  "add_files p items w = (Inr u, w') \<Longrightarrow> (path, a) \<in> set items \<Longrightarrow>
     (map_of (files (heap w p)) path = None \<or> map_of (files (heap w p)) path = Some a) \<and>
     map_of (files (heap w' p)) path = Some a"
proof (induction items arbitrary: w)
  case Nil
  then show ?case by simp
next
  case (Cons x items)
  obtain p0 a0 where x: "x = (p0, a0)" by (cases x)
  obtain res w1 where s: "add_file p p0 a0 w = (res, w1)" by (cases "add_file p p0 a0 w")
  from Cons.prems(1) x s obtain u1 where res: "res = Inr u1"
    and rest: "add_files p items w1 = (Inr u, w')"
    by (cases res) auto
  from s res have step:
    "(map_of (files (heap w p)) p0 = Some a0 \<and> w1 = w) \<or>
     (map_of (files (heap w p)) p0 = None \<and>
      w1 = set_files p (AList.update p0 a0 (files (heap w p))) w)"
    using add_file_Inr by blast
  then have head: "map_of (files (heap w p)) p0 = None \<or> map_of (files (heap w p)) p0 = Some a0"
    by blast
  have m1: "map_of (files (heap w1 p)) p0 = Some a0"
    using step by (auto simp: update_conv')
  have older: "\<And>k. k \<noteq> p0 \<Longrightarrow> map_of (files (heap w1 p)) k = map_of (files (heap w p)) k"
    using step by (auto simp: update_conv')
  have keep: "map_of (files (heap w' p)) p0 = Some a0"
  proof -
    from m1 have "map_of (files (heap (snd (add_files p items w1)) p)) p0 = Some a0"
      by (rule add_files_invariant) (rule add_file_keeps)
    then show ?thesis using rest by simp
  qed
  show ?case
  proof (cases "(path, a) \<in> set items")
    case True
    from Cons.IH [OF rest True]
    have a: "map_of (files (heap w1 p)) path = None \<or> map_of (files (heap w1 p)) path = Some a"
      and b: "map_of (files (heap w' p)) path = Some a"
      by blast+
    show ?thesis
    proof (cases "path = p0")
      case True
      with a m1 have "a = a0" by auto
      with True head b show ?thesis by auto
    next
      case False
      with a older [of path] b show ?thesis by simp
    qed
  next
    case False
    with Cons.prems(2) x have "path = p0" "a = a0" by auto
    with head keep show ?thesis by blast
  qed
qed

text \<open>A loop that raises did so at one item, after registering the items before it.\<close>

lemma add_jobs_Inl:
  "add_jobs p items w = (Inl e, w') \<Longrightarrow>
     \<exists>pre x post. items = pre @ x # post \<and> add_jobs p pre w = (Inr (), w') \<and>
       add_job p (fst x) (snd x) w' = (Inl e, w')"
proof (induction items arbitrary: w)
  case Nil
  then show ?case by simp
next
  case (Cons x items)
  obtain n0 j0 where x: "x = (n0, j0)" by (cases x)
  obtain res w1 where s: "add_job p n0 j0 w = (res, w1)" by (cases "add_job p n0 j0 w")
  show ?case
  proof (cases res)
    case (Inl e1)
    with Cons.prems x s have "e1 = e" "w1 = w'" by auto
    moreover from s Inl have "w1 = w" using add_job_Inl by blast
    ultimately have "x # items = [] @ x # items \<and> add_jobs p [] w = (Inr (), w') \<and>
        add_job p (fst x) (snd x) w' = (Inl e, w')"
      using s Inl x by simp
    then show ?thesis by blast
  next
    case (Inr u1)
    with Cons.prems x s have rest: "add_jobs p items w1 = (Inl e, w')" by simp
    from Cons.IH [OF rest] obtain pre y post where
      d: "items = pre @ y # post" and ok: "add_jobs p pre w1 = (Inr (), w')"
      and bad: "add_job p (fst y) (snd y) w' = (Inl e, w')"
      by blast
    have "x # items = (x # pre) @ y # post" using d by simp
    moreover have "add_jobs p (x # pre) w = (Inr (), w')" using x s Inr ok by simp
    ultimately show ?thesis using bad by blast
  qed
qed

lemma add_files_Inl:
  "add_files p items w = (Inl e, w') \<Longrightarrow>
     \<exists>pre x post. items = pre @ x # post \<and> add_files p pre w = (Inr (), w') \<and>
       add_file p (fst x) (snd x) w' = (Inl e, w')"
proof (induction items arbitrary: w)
  case Nil
  then show ?case by simp
next
  case (Cons x items)
  obtain p0 a0 where x: "x = (p0, a0)" by (cases x)
  obtain res w1 where s: "add_file p p0 a0 w = (res, w1)" by (cases "add_file p p0 a0 w")
  show ?case
  proof (cases res)
    case (Inl e1)
    with Cons.prems x s have "e1 = e" "w1 = w'" by auto
    moreover from s Inl have "w1 = w" using add_file_Inl by blast
    ultimately have "x # items = [] @ x # items \<and> add_files p [] w = (Inr (), w') \<and>
        add_file p (fst x) (snd x) w' = (Inl e, w')"
      using s Inl x by simp
    then show ?thesis by blast
  next
    case (Inr u1)
    with Cons.prems x s have rest: "add_files p items w1 = (Inl e, w')" by simp
    from Cons.IH [OF rest] obtain pre y post where
      d: "items = pre @ y # post" and ok: "add_files p pre w1 = (Inr (), w')"
      and bad: "add_file p (fst y) (snd y) w' = (Inl e, w')"
      by blast
    have "x # items = (x # pre) @ y # post" using d by simp
    moreover have "add_files p (x # pre) w = (Inr (), w')" using x s Inr ok by simp
    ultimately show ?thesis using bad by blast
  qed
qed
lemma add_jobs_files: "files (heap (snd (add_jobs p items w)) r) = files (heap w r)"
proof -
  have "files (heap w r) = files (heap w r)" by simp
  then show ?thesis
    by (rule add_jobs_invariant [where P = "\<lambda>v. files (heap v r) = files (heap w r)"])
       (simp add: add_job_files)
qed

lemma add_jobs_others: "r \<noteq> p \<Longrightarrow> heap (snd (add_jobs p items w)) r = heap w r"
proof -
  assume r: "r \<noteq> p"
  have "heap w r = heap w r" by simp
  then show ?thesis
    by (rule add_jobs_invariant [where P = "\<lambda>v. heap v r = heap w r"])
       (simp add: add_job_others [OF r])
qed

lemma add_files_others: "r \<noteq> p \<Longrightarrow> heap (snd (add_files p items w)) r = heap w r"
proof -
  assume r: "r \<noteq> p"
  have "heap w r = heap w r" by simp
  then show ?thesis
    by (rule add_files_invariant [where P = "\<lambda>v. heap v r = heap w r"])
       (simp add: add_file_others [OF r])
qed

lemma add_jobs_rest: "(snd (add_jobs p items w))\<lparr>heap := h\<rparr> = w\<lparr>heap := h\<rparr>"
proof -
  have "w\<lparr>heap := h\<rparr> = w\<lparr>heap := h\<rparr>" by simp
  then show ?thesis
    by (rule add_jobs_invariant [where P = "\<lambda>v. v\<lparr>heap := h\<rparr> = w\<lparr>heap := h\<rparr>"])
       (simp add: add_job_rest)
qed

lemma add_files_rest: "(snd (add_files p items w))\<lparr>heap := h\<rparr> = w\<lparr>heap := h\<rparr>"
proof -
  have "w\<lparr>heap := h\<rparr> = w\<lparr>heap := h\<rparr>" by simp
  then show ?thesis
    by (rule add_files_invariant [where P = "\<lambda>v. v\<lparr>heap := h\<rparr> = w\<lparr>heap := h\<rparr>"])
       (simp add: add_file_rest)
qed

lemma add_jobs_keeps:
  "map_of (jobs (heap w r)) k = Some v \<Longrightarrow>
     map_of (jobs (heap (snd (add_jobs p items w)) r)) k = Some v"
  by (erule add_jobs_invariant) (rule add_job_keeps)

lemma add_files_keeps:
  "map_of (files (heap w r)) k = Some v \<Longrightarrow>
     map_of (files (heap (snd (add_files p items w)) r)) k = Some v"
  by (erule add_files_invariant) (rule add_file_keeps)

lemma add_jobs_result:
  "fst (add_jobs p items w) = Inr () \<or> (\<exists>m. fst (add_jobs p items w) = Inl (AzkabanError m))"
proof (cases "fst (add_jobs p items w)")
  case (Inl e)
  then have "add_jobs p items w = (Inl e, snd (add_jobs p items w))"
    by (simp add: prod_eq_iff)
  from add_jobs_Inl [OF this] add_job_Inl Inl show ?thesis by blast
next
  case (Inr u)
  then show ?thesis by simp
qed

lemma add_files_result:
  "fst (add_files p items w) = Inr () \<or> (\<exists>m. fst (add_files p items w) = Inl (AzkabanError m))"
proof (cases "fst (add_files p items w)")
  case (Inl e)
  then have "add_files p items w = (Inl e, snd (add_files p items w))"
    by (simp add: prod_eq_iff)
  from add_files_Inl [OF this] add_file_Inl Inl show ?thesis by blast
next
  case (Inr u)
  then show ?thesis by simp
qed

text \<open>The two ways \<^verbatim>\<open>merge_into\<close> ends, in terms of its loops.\<close>

lemma merge_into_Inr:
  "merge_into self project w = (Inr u, w') \<Longrightarrow>
     \<exists>w1. add_jobs project (jobs (heap w self)) w = (Inr (), w1) \<and>
          add_files project (files (heap w self)) w1 = (Inr (), w')"
proof -
  assume m: "merge_into self project w = (Inr u, w')"
  obtain res w1 where s: "add_jobs project (jobs (heap w self)) w = (res, w1)"
    by (cases "add_jobs project (jobs (heap w self)) w")
  have f: "files (heap w1 self) = files (heap w self)"
    using add_jobs_files [where p = project and items = "jobs (heap w self)" and w = w and r = self] s by simp
  show ?thesis
    using m s f by (cases res) (auto simp: merge_into_def)
qed

lemma merge_into_Inl:
  "merge_into self project w = (Inl e, w') \<Longrightarrow>
     add_jobs project (jobs (heap w self)) w = (Inl e, w') \<or>
     (\<exists>w1. add_jobs project (jobs (heap w self)) w = (Inr (), w1) \<and>
          add_files project (files (heap w self)) w1 = (Inl e, w'))"
proof -
  assume m: "merge_into self project w = (Inl e, w')"
  obtain res w1 where s: "add_jobs project (jobs (heap w self)) w = (res, w1)"
    by (cases "add_jobs project (jobs (heap w self)) w")
  have f: "files (heap w1 self) = files (heap w self)"
    using add_jobs_files [where p = project and items = "jobs (heap w self)" and w = w and r = self] s by simp
  show ?thesis
    using m s f by (cases res) (auto simp: merge_into_def)
qed

lemma merge_into_snd:
  "snd (merge_into self project w) =
     snd (add_files project (files (heap w self))
       (snd (add_jobs project (jobs (heap w self)) w))) \<or>
   snd (merge_into self project w) = snd (add_jobs project (jobs (heap w self)) w)"
proof -
  obtain res w1 where s: "add_jobs project (jobs (heap w self)) w = (res, w1)"
    by (cases "add_jobs project (jobs (heap w self)) w")
  have f: "files (heap w1 self) = files (heap w self)"
    using add_jobs_files [where p = project and items = "jobs (heap w self)" and w = w and r = self] s by simp
  show ?thesis
    using s f by (cases res) (auto simp: merge_into_def)
qed

text \<open>Merging a project into itself changes nothing.\<close>

lemma add_file_registered:
  "map_of (files (heap w p)) path \<noteq> None \<Longrightarrow> snd (add_file p path a w) = w"
  by (auto simp: add_file_def)

lemma add_files_registered:
  "\<forall>x \<in> set items. map_of (files (heap w p)) (fst x) \<noteq> None \<Longrightarrow>
     snd (add_files p items w) = w"
proof (induction items)
  case Nil
  then show ?case by simp
next
  case (Cons x items)
  obtain p0 a0 where x: "x = (p0, a0)" by (cases x)
  obtain res w1 where s: "add_file p p0 a0 w = (res, w1)" by (cases "add_file p p0 a0 w")
  have "w1 = w" using add_file_registered [of w p p0 a0] Cons.prems x s by simp
  then show ?case using x s Cons by (cases res) simp_all
qed

lemma add_jobs_own: "snd (add_jobs p (jobs (heap w p)) w) = w"
proof (cases "jobs (heap w p)")
  case Nil
  then show ?thesis by simp
next
  case (Cons x items)
  obtain n j where x: "x = (n, j)" by (cases x)
  have "map_of (jobs (heap w p)) n \<noteq> None" using Cons x by simp
  then have "add_job p n j w = (Inl (AzkabanError (DuplicateJobName n)), w)"
    by (simp add: add_job_def)
  then show ?thesis using Cons x by simp
qed

lemma merge_into_self: "snd (merge_into p p w) = w"
proof -
  have "\<forall>x \<in> set (files (heap w p)). map_of (files (heap w p)) (fst x) \<noteq> None"
    by (auto simp: map_of_eq_None_iff)
  then have "snd (add_files p (files (heap w p)) w) = w"
    by (rule add_files_registered)
  then show ?thesis
    using merge_into_snd [of p p w] add_jobs_own [of p w] by auto
qed
lemma merge_into_result:
  "fst (merge_into self project w) = Inr () \<or>
   (\<exists>m. fst (merge_into self project w) = Inl (AzkabanError m))"
proof (cases "fst (merge_into self project w)")
  case (Inl e)
  then have "merge_into self project w = (Inl e, snd (merge_into self project w))"
    by (simp add: prod_eq_iff)
  from merge_into_Inl [OF this]
  have "fst (add_jobs project (jobs (heap w self)) w) = Inl e \<or>
    (\<exists>w1. fst (add_files project (files (heap w self)) w1) = Inl e)"
    by (metis fst_conv)
  then show ?thesis
    using Inl add_jobs_result [of project "jobs (heap w self)" w]
      add_files_result [of project "files (heap w self)"]
    by (metis Inl_Inr_False)
next
  case (Inr u)
  then show ?thesis by simp
qed

lemma merge_into_jobs_kept:
  "map_of (jobs (heap w r)) k = Some v \<Longrightarrow>
     map_of (jobs (heap (snd (merge_into self project w)) r)) k = Some v"
  using merge_into_snd [of self project w]
    add_jobs_keeps [of w r k v project "jobs (heap w self)"]
  by (auto simp: add_files_jobs)

lemma merge_into_files_kept:
  "map_of (files (heap w r)) k = Some v \<Longrightarrow>
     map_of (files (heap (snd (merge_into self project w)) r)) k = Some v"
proof -
  assume a: "map_of (files (heap w r)) k = Some v"
  let ?w1 = "snd (add_jobs project (jobs (heap w self)) w)"
  have b: "map_of (files (heap ?w1 r)) k = Some v"
    using a by (simp add: add_jobs_files)
  have "map_of (files (heap (snd (add_files project (files (heap w self)) ?w1)) r)) k = Some v"
    using b by (rule add_files_keeps)
  then show ?thesis
    using merge_into_snd [of self project w] b by auto
qed

section \<open>Merging\<close>

text \<open>
  Claim C5. \<^verbatim>\<open>merge_into(other)\<close> copies the jobs and the registered files of the source
  project into the other project: after a merge that raises nothing, the other project binds
  every job name of the source to the source's job and every path of the source to the
  source's archive path. The merge raises \<^verbatim>\<open>AzkabanError\<close> when a job name of the source is
  already present in the other project, and when a path of the source is registered in the
  other project with a different archive path.
\<close>

theorem merge_into_copies:
  "(fst (merge_into self project w) = Inr () \<longrightarrow>
      has_jobs (snd (merge_into self project w)) project (jobs (heap w self)) \<and>
      has_files (snd (merge_into self project w)) project (files (heap w self))) \<and>
   ((\<exists>n j. (n, j) \<in> set (jobs (heap w self)) \<and> map_of (jobs (heap w project)) n \<noteq> None) \<longrightarrow>
      (\<exists>m. fst (merge_into self project w) = Inl (AzkabanError m))) \<and>
   ((\<exists>path a a'. (path, a) \<in> set (files (heap w self)) \<and>
        map_of (files (heap w project)) path = Some a' \<and> a' \<noteq> a) \<longrightarrow>
      (\<exists>m. fst (merge_into self project w) = Inl (AzkabanError m)))"
proof -
  let ?w' = "snd (merge_into self project w)"
  have ok: "has_jobs ?w' project (jobs (heap w self)) \<and>
      has_files ?w' project (files (heap w self)) \<and>
      (\<forall>n j. (n, j) \<in> set (jobs (heap w self)) \<longrightarrow> map_of (jobs (heap w project)) n = None) \<and>
      (\<forall>path a. (path, a) \<in> set (files (heap w self)) \<longrightarrow>
         map_of (files (heap w project)) path = None \<or>
         map_of (files (heap w project)) path = Some a)"
    if r: "fst (merge_into self project w) = Inr ()"
  proof -
    from r have "merge_into self project w = (Inr (), ?w')"
      by (simp add: prod_eq_iff)
    from merge_into_Inr [OF this] obtain w1 where
      js: "add_jobs project (jobs (heap w self)) w = (Inr (), w1)" and
      fs: "add_files project (files (heap w self)) w1 = (Inr (), ?w')"
      by blast
    have same_jobs: "jobs (heap ?w' project) = jobs (heap w1 project)"
      using add_files_jobs [where project = project and items = "files (heap w self)" and w = w1 and r = project] fs by simp
    have same_files: "files (heap w1 project) = files (heap w project)"
      using add_jobs_files [where p = project and items = "jobs (heap w self)" and w = w and r = project] js by simp
    have "has_jobs ?w' project (jobs (heap w self))"
      unfolding has_jobs_def using add_jobs_Inr [OF js] same_jobs by auto
    moreover have "has_files ?w' project (files (heap w self))"
      unfolding has_files_def using add_files_Inr [OF fs] by auto
    moreover have "\<forall>n j. (n, j) \<in> set (jobs (heap w self)) \<longrightarrow>
        map_of (jobs (heap w project)) n = None"
      using add_jobs_Inr [OF js] by blast
    moreover have "\<forall>path a. (path, a) \<in> set (files (heap w self)) \<longrightarrow>
         map_of (files (heap w project)) path = None \<or>
         map_of (files (heap w project)) path = Some a"
      using add_files_Inr [OF fs] same_files by auto
    ultimately show ?thesis by blast
  qed
  have shape: "fst (merge_into self project w) = Inr () \<or>
      (\<exists>m. fst (merge_into self project w) = Inl (AzkabanError m))"
    by (rule merge_into_result)
  show ?thesis
  proof (intro conjI impI)
    assume "fst (merge_into self project w) = Inr ()"
    then show "has_jobs ?w' project (jobs (heap w self))"
      and "has_files ?w' project (files (heap w self))"
      using ok by blast+
  next
    assume c: "\<exists>n j. (n, j) \<in> set (jobs (heap w self)) \<and> map_of (jobs (heap w project)) n \<noteq> None"
    have "fst (merge_into self project w) \<noteq> Inr ()"
    proof
      assume "fst (merge_into self project w) = Inr ()"
      from ok [OF this] have "\<forall>n j. (n, j) \<in> set (jobs (heap w self)) \<longrightarrow>
          map_of (jobs (heap w project)) n = None"
        by (elim conjE)
      with c show False by auto
    qed
    then show "\<exists>m. fst (merge_into self project w) = Inl (AzkabanError m)"
      using shape by blast
  next
    assume c: "\<exists>path a a'. (path, a) \<in> set (files (heap w self)) \<and>
        map_of (files (heap w project)) path = Some a' \<and> a' \<noteq> a"
    have "fst (merge_into self project w) \<noteq> Inr ()"
    proof
      assume "fst (merge_into self project w) = Inr ()"
      from ok [OF this] have "\<forall>path a. (path, a) \<in> set (files (heap w self)) \<longrightarrow>
         map_of (files (heap w project)) path = None \<or>
         map_of (files (heap w project)) path = Some a"
        by (elim conjE)
      with c show False by fastforce
    qed
    then show "\<exists>m. fst (merge_into self project w) = Inl (AzkabanError m)"
      using shape by blast
  qed
qed
text \<open>What the sample worlds hold.\<close>

lemma source_heap:
  "heap source 0 = \<lparr>name = ''foo'', jobs = [(''bar'', noop), (''baz'', shell)],
      files = [(''/some/file.path'', None)]\<rparr>"
  "heap source (Suc 0) = \<lparr>name = ''foo'', jobs = [], files = []\<rparr>"
  "exists source ''/some/file.path''"
  by (simp_all add: source_def sample_def add_job_def add_file_def on_add_def exists_def
      isabs_def)

lemma clash_heap:
  "heap clash 0 = heap source 0"
  "heap clash (Suc 0) = \<lparr>name = ''foo'', jobs = [(''baz'', noop)], files = []\<rparr>"
  by (simp_all add: clash_def add_job_def on_add_def source_heap)

lemma clash_file_heap:
  "heap clash_file 0 = heap source 0"
  "heap clash_file (Suc 0) =
     \<lparr>name = ''foo'', jobs = [], files = [(''/some/file.path'', Some ''lib/file.path'')]\<rparr>"
  by (simp_all add: clash_file_def add_file_def isabs_def source_heap)

lemma merge_source:
  "merge_into 0 1 source =
     (Inr (), set_files 1 [(''/some/file.path'', None)]
        (set_jobs 1 [(''bar'', noop), (''baz'', shell)] (set_jobs 1 [(''bar'', noop)] source)))"
  by (simp add: merge_into_def add_job_def add_file_def on_add_def isabs_def source_heap)

lemma merge_clash:
  "merge_into 0 1 clash =
     (Inl (AzkabanError (DuplicateJobName ''baz'')),
      set_jobs 1 [(''baz'', noop), (''bar'', noop)] clash)"
  by (simp add: merge_into_def add_job_def on_add_def clash_heap source_heap)

lemma merge_clash_file:
  "fst (merge_into 0 1 clash_file) = Inl (AzkabanError (InconsistentDuplicate ''/some/file.path''))"
  by (simp add: merge_into_def add_job_def add_file_def on_add_def isabs_def clash_file_heap
      source_heap)

theorem merge_into_copies_witness:
  "fst (merge_into 0 1 source) = Inr () \<and>
   has_jobs (snd (merge_into 0 1 source)) 1 [(''bar'', noop), (''baz'', shell)] \<and>
   has_files (snd (merge_into 0 1 source)) 1 [(''/some/file.path'', None)] \<and>
   (''baz'', shell) \<in> set (jobs (heap clash 0)) \<and>
   map_of (jobs (heap clash 1)) ''baz'' \<noteq> None \<and>
   (\<exists>m. fst (merge_into 0 1 clash) = Inl (AzkabanError m)) \<and>
   (''/some/file.path'', None) \<in> set (files (heap clash_file 0)) \<and>
   map_of (files (heap clash_file 1)) ''/some/file.path'' = Some (Some ''lib/file.path'') \<and>
   (\<exists>m. fst (merge_into 0 1 clash_file) = Inl (AzkabanError m))"
proof -
  have ok: "fst (merge_into 0 1 source) = Inr ()"
    using merge_source by simp
  have copied: "has_jobs (snd (merge_into 0 1 source)) 1 (jobs (heap source 0)) \<and>
      has_files (snd (merge_into 0 1 source)) 1 (files (heap source 0))"
    using merge_into_copies [where self = 0 and project = 1 and w = source] ok by blast
  have j1: "(''baz'', shell) \<in> set (jobs (heap clash 0))"
    by (simp add: clash_heap source_heap)
  have j2: "map_of (jobs (heap clash 1)) ''baz'' \<noteq> None"
    by (simp add: clash_heap)
  have j3: "\<exists>m. fst (merge_into 0 1 clash) = Inl (AzkabanError m)"
    using merge_into_copies [where self = 0 and project = 1 and w = clash] j1 j2 by blast
  have f1: "(''/some/file.path'', None) \<in> set (files (heap clash_file 0))"
    by (simp add: clash_file_heap source_heap)
  have f2: "map_of (files (heap clash_file 1)) ''/some/file.path'' = Some (Some ''lib/file.path'')"
    by (simp add: clash_file_heap)
  have f3: "Some ''lib/file.path'' \<noteq> (None :: string option)"
    by simp
  have f4: "\<exists>m. fst (merge_into 0 1 clash_file) = Inl (AzkabanError m)"
    using merge_into_copies [where self = 0 and project = 1 and w = clash_file] f1 f2 f3
    by blast
  show ?thesis
    using ok copied j1 j2 j3 f1 f2 f4 by (simp add: source_heap)
qed

text \<open>
  Claim C10. \<^verbatim>\<open>merge_into\<close> never modifies the source project: whether it returns or raises,
  the source's jobs and files are what they were, also when the source and the target are
  the same object. Only the target changes: every other project of the store and everything
  outside the store is as before, the target keeps its name and the bindings it had. When
  the merge raises, it does so at one item of the source, by the call that registers this
  item in the target, and the target holds the items that came before it: either the jobs
  before the failing job and no new file, or all the jobs and the files before the failing
  file.
\<close>

theorem merge_into_frame:
  assumes "merge_into self project w = (res, w')"
  shows "jobs (heap w' self) = jobs (heap w self) \<and>
    files (heap w' self) = files (heap w self) \<and>
    (\<forall>r. r \<noteq> project \<longrightarrow> heap w' r = heap w r) \<and>
    w'\<lparr>heap := heap w\<rparr> = w \<and>
    name (heap w' project) = name (heap w project) \<and>
    map_of (jobs (heap w project)) \<subseteq>\<^sub>m map_of (jobs (heap w' project)) \<and>
    map_of (files (heap w project)) \<subseteq>\<^sub>m map_of (files (heap w' project)) \<and>
    (\<forall>e. res = Inl e \<longrightarrow>
       (\<exists>pre x post. jobs (heap w self) = pre @ x # post \<and>
          has_jobs w' project pre \<and>
          files (heap w' project) = files (heap w project) \<and>
          add_job project (fst x) (snd x) w' = (Inl e, w')) \<or>
       (has_jobs w' project (jobs (heap w self)) \<and>
        (\<exists>pre x post. files (heap w self) = pre @ x # post \<and>
           has_files w' project pre \<and>
           add_file project (fst x) (snd x) w' = (Inl e, w'))))"
proof -
  let ?js = "jobs (heap w self)" and ?fs = "files (heap w self)"
  let ?w1 = "snd (add_jobs project ?js w)"
  have w': "w' = snd (merge_into self project w)"
    using assms by simp
  have steps: "w' = snd (add_files project ?fs ?w1) \<or> w' = ?w1"
    using merge_into_snd [where self = self and project = project and w = w] w' by simp
  have others: "\<forall>r. r \<noteq> project \<longrightarrow> heap w' r = heap w r"
    using steps by (auto simp: add_jobs_others add_files_others)
  have source: "heap w' self = heap w self"
  proof (cases "self = project")
    case True
    then show ?thesis using w' merge_into_self [where p = project and w = w] by simp
  next
    case False
    then show ?thesis using others by simp
  qed
  have rest: "w'\<lparr>heap := heap w\<rparr> = w"
  proof -
    have "w'\<lparr>heap := heap w\<rparr> = w\<lparr>heap := heap w\<rparr>"
      using steps add_jobs_rest [where p = project and items = "?js" and w = w and h = "heap w"]
        add_files_rest [where p = project and items = "?fs" and w = "?w1" and h = "heap w"]
      by auto
    then show ?thesis by simp
  qed
  have nm: "name (heap w' project) = name (heap w project)"
  proof -
    have a: "name (heap ?w1 project) = name (heap w project)"
      by (rule add_jobs_invariant [where P = "\<lambda>v. name (heap v project) = name (heap w project)"])
         (simp_all add: add_job_name)
    have "name (heap (snd (add_files project ?fs ?w1)) project) = name (heap w project)"
      by (rule add_files_invariant
            [where P = "\<lambda>v. name (heap v project) = name (heap w project)"])
         (simp_all add: add_file_name a)
    then show ?thesis using steps a by auto
  qed
  have kept_jobs: "map_of (jobs (heap w project)) \<subseteq>\<^sub>m map_of (jobs (heap w' project))"
    unfolding map_le_def w' using merge_into_jobs_kept by (auto simp: dom_def)
  have kept_files: "map_of (files (heap w project)) \<subseteq>\<^sub>m map_of (files (heap w' project))"
    unfolding map_le_def w' using merge_into_files_kept by (auto simp: dom_def)
  have partway:
    "(\<exists>pre x post. ?js = pre @ x # post \<and> has_jobs w' project pre \<and>
        files (heap w' project) = files (heap w project) \<and>
        add_job project (fst x) (snd x) w' = (Inl e, w')) \<or>
     (has_jobs w' project ?js \<and>
      (\<exists>pre x post. ?fs = pre @ x # post \<and> has_files w' project pre \<and>
         add_file project (fst x) (snd x) w' = (Inl e, w')))"
    if r: "res = Inl e" for e
  proof -
    from assms r have m: "merge_into self project w = (Inl e, w')" by simp
    from merge_into_Inl [OF m] show ?thesis
    proof
      assume a: "add_jobs project ?js w = (Inl e, w')"
      from add_jobs_Inl [OF a] obtain pre x post where
        d: "?js = pre @ x # post" and ok: "add_jobs project pre w = (Inr (), w')"
        and bad: "add_job project (fst x) (snd x) w' = (Inl e, w')"
        by blast
      have "has_jobs w' project pre"
        unfolding has_jobs_def using add_jobs_Inr [OF ok] by auto
      moreover have "files (heap w' project) = files (heap w project)"
        using add_jobs_files [where p = project and items = "?js" and w = w and r = project] a by simp
      ultimately show ?thesis using d bad by blast
    next
      assume "\<exists>w1. add_jobs project ?js w = (Inr (), w1) \<and>
          add_files project ?fs w1 = (Inl e, w')"
      then obtain w1 where js: "add_jobs project ?js w = (Inr (), w1)"
        and fs: "add_files project ?fs w1 = (Inl e, w')"
        by blast
      from add_files_Inl [OF fs] obtain pre x post where
        d: "?fs = pre @ x # post" and ok: "add_files project pre w1 = (Inr (), w')"
        and bad: "add_file project (fst x) (snd x) w' = (Inl e, w')"
        by blast
      have "jobs (heap w' project) = jobs (heap w1 project)"
        using add_files_jobs [where project = project and items = "?fs" and w = w1 and r = project] fs by simp
      then have "has_jobs w' project ?js"
        unfolding has_jobs_def using add_jobs_Inr [OF js] by auto
      moreover have "has_files w' project pre"
        unfolding has_files_def using add_files_Inr [OF ok] by auto
      ultimately show ?thesis using d bad by blast
    qed
  qed
  show ?thesis
    using source others rest nm kept_jobs kept_files partway by simp
qed

theorem merge_into_frame_witness:
  "merge_into 0 1 clash =
     (Inl (AzkabanError (DuplicateJobName ''baz'')),
      set_jobs 1 [(''baz'', noop), (''bar'', noop)] clash) \<and>
   jobs (heap (set_jobs 1 [(''baz'', noop), (''bar'', noop)] clash) 0) =
     [(''bar'', noop), (''baz'', shell)] \<and>
   files (heap (set_jobs 1 [(''baz'', noop), (''bar'', noop)] clash) 0) =
     [(''/some/file.path'', None)] \<and>
   map_of (jobs (heap (set_jobs 1 [(''baz'', noop), (''bar'', noop)] clash) 1)) ''bar'' =
     Some noop \<and>
   (set_jobs 1 [(''baz'', noop), (''bar'', noop)] clash)\<lparr>heap := heap clash\<rparr> = clash"
proof -
  let ?w' = "set_jobs 1 [(''baz'', noop), (''bar'', noop)] clash"
  note frame = merge_into_frame [OF merge_clash]
  have a: "jobs (heap ?w' 0) = jobs (heap clash 0)"
    using frame by (elim conjE)
  have b: "files (heap ?w' 0) = files (heap clash 0)"
    using frame by (elim conjE)
  have c: "?w'\<lparr>heap := heap clash\<rparr> = clash"
    using frame by (elim conjE)
  have d: "map_of (jobs (heap ?w' 1)) ''bar'' = Some noop"
    by simp
  show ?thesis
    using merge_clash a b c d by (simp add: clash_heap source_heap)
qed

section \<open>Archives\<close>

lemma write_jobs_ok:
  "disk w zpath = Some (Zip es) \<Longrightarrow>
     write_jobs self zpath items w =
       (Inr (), w\<lparr>disk := (disk w)(zpath \<mapsto> Zip (es @ map job_entry items))\<rparr>)"
proof (induction items arbitrary: w es)
  case Nil
  then have e: "(disk w)(zpath \<mapsto> Zip es) = disk w" by (simp add: fun_upd_idem)
  have r: "w\<lparr>disk := (disk w)(zpath \<mapsto> Zip es)\<rparr> = w" unfolding e by simp
  show ?case by (simp only: write_jobs.simps list.map append_Nil2 r)
next
  case (Cons x items)
  obtain n j where x: "x = (n, j)" by (cases x)
  let ?w1 = "append_entry zpath (Some (n @ ''.job'')) (Text (job_text j)) w"
  have w1: "?w1 = w\<lparr>disk := (disk w)(zpath \<mapsto> Zip (es @ [job_entry x]))\<rparr>"
    using Cons.prems by (simp add: append_entry_def entries_def job_entry_def x)
  have d1: "disk ?w1 zpath = Some (Zip (es @ [job_entry x]))"
    using w1 by simp
  have "write_jobs self zpath (x # items) w = write_jobs self zpath items ?w1"
    by (simp add: x on_build_def)
  also have "\<dots> = (Inr (), ?w1\<lparr>disk := (disk ?w1)(zpath \<mapsto>
      Zip ((es @ [job_entry x]) @ map job_entry items))\<rparr>)"
    by (rule Cons.IH [OF d1])
  also have "?w1\<lparr>disk := (disk ?w1)(zpath \<mapsto> Zip ((es @ [job_entry x]) @ map job_entry items))\<rparr>
      = w\<lparr>disk := (disk w)(zpath \<mapsto> Zip (es @ map job_entry (x # items)))\<rparr>"
    by (simp add: w1)
  finally show ?case .
qed

lemma archived_mono:
  "(\<And>f. f \<noteq> zpath \<Longrightarrow> disk w1 f = disk w f) \<Longrightarrow> archived w1 zpath item entry \<Longrightarrow>
     archived w zpath item entry"
  unfolding archived_def by metis

lemma write_files_ok:
  "disk w zpath = Some (Zip es) \<Longrightarrow> \<forall>x \<in> set items. disk w (fst x) \<noteq> None \<Longrightarrow>
     \<exists>new. write_files zpath items w =
         (Inr (), w\<lparr>disk := (disk w)(zpath \<mapsto> Zip (es @ new))\<rparr>) \<and>
       list_all2 (archived w zpath) items new"
proof (induction items arbitrary: w es)
  case Nil
  then have e: "(disk w)(zpath \<mapsto> Zip es) = disk w" by (simp add: fun_upd_idem)
  have r: "w\<lparr>disk := (disk w)(zpath \<mapsto> Zip es)\<rparr> = w" unfolding e by simp
  have "write_files zpath [] w = (Inr (), w\<lparr>disk := (disk w)(zpath \<mapsto> Zip (es @ []))\<rparr>)"
    by (simp only: write_files.simps append_Nil2 r)
  then show ?case by (metis list_all2_Nil)
next
  case (Cons x items)
  obtain f a where x: "x = (f, a)" by (cases x)
  from Cons.prems(2) x obtain c where c: "disk w f = Some c" by auto
  let ?w1 = "append_entry zpath a c w"
  have w1: "?w1 = w\<lparr>disk := (disk w)(zpath \<mapsto> Zip (es @ [(a, c)]))\<rparr>"
    using Cons.prems(1) by (simp add: append_entry_def entries_def)
  have d1: "disk ?w1 zpath = Some (Zip (es @ [(a, c)]))"
    using w1 by simp
  have e1: "\<forall>y \<in> set items. disk ?w1 (fst y) \<noteq> None"
    using Cons.prems(2) w1 by simp
  have step: "write_files zpath (x # items) w = write_files zpath items ?w1"
    by (simp add: x writer_write_def c)
  from Cons.IH [OF d1 e1] obtain new where
    r: "write_files zpath items ?w1 =
      (Inr (), ?w1\<lparr>disk := (disk ?w1)(zpath \<mapsto> Zip ((es @ [(a, c)]) @ new))\<rparr>)"
    and l: "list_all2 (archived ?w1 zpath) items new"
    by blast
  have same: "\<And>g. g \<noteq> zpath \<Longrightarrow> disk ?w1 g = disk w g"
    using w1 by simp
  have l': "list_all2 (archived w zpath) items new"
    using l archived_mono [OF same] by (rule list_all2_mono)
  have hd: "archived w zpath x (a, c)"
    by (simp add: archived_def x c)
  have "write_files zpath (x # items) w =
      (Inr (), w\<lparr>disk := (disk w)(zpath \<mapsto> Zip (es @ (a, c) # new))\<rparr>)"
    using step r by (simp add: w1)
  moreover have "list_all2 (archived w zpath) (x # items) ((a, c) # new)"
    using hd l' by simp
  ultimately show ?case by blast
qed

text \<open>
  Claim C1, as stated: whenever the destination is free (or may be overwritten) and the
  project is not empty, \<^verbatim>\<open>build\<close> writes the archive with an entry for every registered file.
  It does not when a registered file has gone from the disk since \<^verbatim>\<open>add_file\<close> checked it:
  \<^verbatim>\<open>writer.write\<close> raises \<^verbatim>\<open>OSError\<close>, the loop has no handler, and the \<^verbatim>\<open>finally\<close> clause
  closes the archive without the entry. In the world below the destination is free and can
  be written, the project holds one file, and the file has been deleted.
\<close>

theorem build_missing_file_counterexample:
  "\<not> exists stale ''/tmp/foo.zip'' \<and>
   writable stale ''/tmp/foo.zip'' \<and>
   files (heap stale 0) = [(''/some/file.path'', None)] \<and>
   fst (build 0 ''/tmp/foo.zip'' False stale) = Inl (OSError ''/some/file.path'') \<and>
   disk (snd (build 0 ''/tmp/foo.zip'' False stale)) ''/tmp/foo.zip'' = Some (Zip [])"
  by (simp add: stale_def sample_def add_file_def exists_def isabs_def build_def ZipFile_def
      writer_write_def set_files_def)

text \<open>
  Claim C1, amended. \<^verbatim>\<open>build(path, overwrite)\<close> raises \<^verbatim>\<open>AzkabanError\<close> when a file exists at
  \<open>path\<close> and \<open>overwrite\<close> is false, and when the project has no jobs and no files; in both
  cases nothing is written. Otherwise, when \<open>path\<close> can be opened for writing and every
  registered file exists on disk, it returns, and the only change is that \<open>path\<close> holds a
  zip archive with one entry \<^verbatim>\<open>name.job\<close> for every job of the project, holding the job text,
  followed by one entry for every registered file, under its archive path and holding the
  content of the file.
\<close>

theorem build_archive:
  "(exists w path \<and> \<not> overwrite \<longrightarrow>
      build self path overwrite w = (Inl (AzkabanError (PathExists path)), w)) \<and>
   (jobs (heap w self) = [] \<and> files (heap w self) = [] \<longrightarrow>
      build self path overwrite w =
        (Inl (AzkabanError
           (if exists w path \<and> \<not> overwrite then PathExists path else EmptyProject)), w)) \<and>
   (\<not> (exists w path \<and> \<not> overwrite) \<and>
    \<not> (jobs (heap w self) = [] \<and> files (heap w self) = []) \<and>
    path \<noteq> [] \<and> writable w path \<and>
    (\<forall>x \<in> set (files (heap w self)). exists w (fst x)) \<longrightarrow>
      (\<exists>new. build self path overwrite w =
         (Inr (), w\<lparr>disk := (disk w)(path \<mapsto>
            Zip (map job_entry (jobs (heap w self)) @ new))\<rparr>) \<and>
         list_all2 (archived w path) (files (heap w self)) new))"
proof (intro conjI impI)
  assume "exists w path \<and> \<not> overwrite"
  then show "build self path overwrite w = (Inl (AzkabanError (PathExists path)), w)"
    by (simp add: build_def)
next
  assume "jobs (heap w self) = [] \<and> files (heap w self) = []"
  then show "build self path overwrite w =
        (Inl (AzkabanError
           (if exists w path \<and> \<not> overwrite then PathExists path else EmptyProject)), w)"
    by (simp add: build_def)
next
  assume a: "\<not> (exists w path \<and> \<not> overwrite) \<and>
    \<not> (jobs (heap w self) = [] \<and> files (heap w self) = []) \<and>
    path \<noteq> [] \<and> writable w path \<and>
    (\<forall>x \<in> set (files (heap w self)). exists w (fst x))"
  let ?js = "jobs (heap w self)" and ?fs = "files (heap w self)"
  let ?w0 = "w\<lparr>disk := (disk w)(path \<mapsto> Zip [])\<rparr>"
  let ?w1 = "w\<lparr>disk := (disk w)(path \<mapsto> Zip (map job_entry ?js))\<rparr>"
  have z: "ZipFile path w = (Inr (), ?w0)"
    using a by (simp add: ZipFile_def)
  have d0: "disk ?w0 path = Some (Zip [])"
    by simp
  have j: "write_jobs self path ?js ?w0 = (Inr (), ?w1)"
    using write_jobs_ok [OF d0, of self ?js] by simp
  have d1: "disk ?w1 path = Some (Zip (map job_entry ?js))"
    by simp
  have e1: "\<forall>x \<in> set ?fs. disk ?w1 (fst x) \<noteq> None"
    using a by (simp add: exists_def)
  from write_files_ok [OF d1 e1] obtain new where
    f: "write_files path ?fs ?w1 =
      (Inr (), ?w1\<lparr>disk := (disk ?w1)(path \<mapsto> Zip (map job_entry ?js @ new))\<rparr>)"
    and l: "list_all2 (archived ?w1 path) ?fs new"
    by blast
  have same: "\<And>g. g \<noteq> path \<Longrightarrow> disk ?w1 g = disk w g"
    by simp
  have l': "list_all2 (archived w path) ?fs new"
    using l archived_mono [OF same] by (rule list_all2_mono)
  have "build self path overwrite w =
      (Inr (), w\<lparr>disk := (disk w)(path \<mapsto> Zip (map job_entry ?js @ new))\<rparr>)"
    using a z j f by (auto simp: build_def)
  then show "\<exists>new. build self path overwrite w =
         (Inr (), w\<lparr>disk := (disk w)(path \<mapsto> Zip (map job_entry ?js @ new))\<rparr>) \<and>
         list_all2 (archived w path) ?fs new"
    using l' by blast
qed

lemma source_disk:
  "disk source = [''/some/file.path'' \<mapsto> Text ''data'']"
  "writable source ''/tmp/foo.zip''"
  by (simp_all add: source_def sample_def add_job_def add_file_def on_add_def exists_def
      isabs_def set_jobs_def set_files_def)

theorem build_archive_witness:
  "exists source ''/some/file.path'' \<and>
   build 0 ''/some/file.path'' False source =
     (Inl (AzkabanError (PathExists ''/some/file.path'')), source) \<and>
   jobs (heap source 1) = [] \<and> files (heap source 1) = [] \<and>
   build 1 ''/tmp/foo.zip'' False source = (Inl (AzkabanError EmptyProject), source) \<and>
   \<not> exists source ''/tmp/foo.zip'' \<and>
   writable source ''/tmp/foo.zip'' \<and>
   build 0 ''/tmp/foo.zip'' False source =
     (Inr (), source\<lparr>disk := (disk source)(''/tmp/foo.zip'' \<mapsto>
        Zip [(Some ''bar.job'', Text (job_text noop)), (Some ''baz.job'', Text (job_text shell)),
             (None, Text ''data'')])\<rparr>)"
proof -
  have named: "''/tmp/foo.zip'' \<noteq> []"
    by simp
  note opens = source_disk(2)
  have there: "exists source ''/some/file.path''"
    by (simp add: source_heap)
  have refused: "build 0 ''/some/file.path'' False source =
      (Inl (AzkabanError (PathExists ''/some/file.path'')), source)"
    using build_archive [where w = source and path = "''/some/file.path''" and overwrite = False
        and self = 0] there
    by blast
  have none: "jobs (heap source 1) = [] \<and> files (heap source 1) = []"
    by (simp add: source_heap)
  have free: "\<not> exists source ''/tmp/foo.zip''"
    by (simp add: exists_def source_disk(1))
  have "build 1 ''/tmp/foo.zip'' False source =
      (Inl (AzkabanError (if exists source ''/tmp/foo.zip'' \<and> \<not> False
         then PathExists ''/tmp/foo.zip'' else EmptyProject)), source)"
    using build_archive [where w = source and path = "''/tmp/foo.zip''" and overwrite = False
        and self = 1] none
    by blast
  then have empty: "build 1 ''/tmp/foo.zip'' False source =
      (Inl (AzkabanError EmptyProject), source)"
    using free by simp
  have some: "\<not> (jobs (heap source 0) = [] \<and> files (heap source 0) = [])"
    by (simp add: source_heap)
  have present: "\<forall>x \<in> set (files (heap source 0)). exists source (fst x)"
    by (simp add: source_heap)
  have "\<exists>new. build 0 ''/tmp/foo.zip'' False source =
      (Inr (), source\<lparr>disk := (disk source)(''/tmp/foo.zip'' \<mapsto>
         Zip (map job_entry (jobs (heap source 0)) @ new))\<rparr>) \<and>
      list_all2 (archived source ''/tmp/foo.zip'') (files (heap source 0)) new"
    using build_archive [where w = source and path = "''/tmp/foo.zip''" and overwrite = False
        and self = 0] free some named opens present
    by blast
  then obtain new where
    b: "build 0 ''/tmp/foo.zip'' False source =
      (Inr (), source\<lparr>disk := (disk source)(''/tmp/foo.zip'' \<mapsto>
         Zip (map job_entry (jobs (heap source 0)) @ new))\<rparr>)"
    and l: "list_all2 (archived source ''/tmp/foo.zip'') (files (heap source 0)) new"
    by blast
  have "new = [(None, Text ''data'')]"
    using l by (auto simp: source_heap source_disk(1) list_all2_Cons1 archived_def)
  then have built: "build 0 ''/tmp/foo.zip'' False source =
     (Inr (), source\<lparr>disk := (disk source)(''/tmp/foo.zip'' \<mapsto>
        Zip [(Some ''bar.job'', Text (job_text noop)), (Some ''baz.job'', Text (job_text shell)),
             (None, Text ''data'')])\<rparr>)"
    using b by (simp add: source_heap job_entry_def)
  show ?thesis
    using there refused none empty free opens built by blast
qed

section \<open>Credentials and remote operations\<close>

text \<open>\<^verbatim>\<open>login\<close> by the reply of the server to the login request.\<close>

lemma login_reply:
  "login url user password alias parser w =
     (case server w (posted w) (login_request url (login_user user w) (login_password password w)) of
        RaiseConnectionError \<Rightarrow> (Inl (AzkabanError UnableToConnect),
          (prompted user password w)\<lparr>posted := posted w @
             [login_request url (login_user user w) (login_password password w)]\<rparr>)
      | RaiseMissingSchema \<Rightarrow> (Inl (AzkabanError InvalidUrl),
          (prompted user password w)\<lparr>posted := posted w @
             [login_request url (login_user user w) (login_password password w)]\<rparr>)
      | Response body js \<Rightarrow>
          (case js of
             None \<Rightarrow> (Inl (ValueError ''No JSON object could be decoded''),
               (prompted user password w)\<lparr>posted := posted w @
                 [login_request url (login_user user w) (login_password password w)]\<rparr>)
           | Some res \<Rightarrow>
               (case map_of res ''error'' of
                  Some err \<Rightarrow> (Inl (AzkabanError (ServerError err)),
                    (prompted user password w)\<lparr>posted := posted w @
                      [login_request url (login_user user w) (login_password password w)]\<rparr>)
                | None \<Rightarrow>
                    (case map_of res ''session.id'' of
                       None \<Rightarrow> (Inl (KeyError ''session.id''),
                         (prompted user password w)\<lparr>posted := posted w @
                           [login_request url (login_user user w) (login_password password w)]\<rparr>)
                     | Some session_id \<Rightarrow>
                         if truthy alias
                         then (case set_option parser (val alias) ''session_id'' session_id of
                                 Inl e \<Rightarrow> (Inl e,
                                   (prompted user password w)\<lparr>posted := posted w @
                                     [login_request url (login_user user w)
                                        (login_password password w)]\<rparr>)
                               | Inr parser1 \<Rightarrow>
                                   (Inr (url, session_id),
                                    write_config parser1
                                      ((prompted user password w)\<lparr>posted := posted w @
                                         [login_request url (login_user user w)
                                            (login_password password w)]\<rparr>)))
                         else (Inr (url, session_id),
                           (prompted user password w)\<lparr>posted := posted w @
                             [login_request url (login_user user w)
                                (login_password password w)]\<rparr>)))))"
  by (cases "truthy user"; cases "truthy password")
     (simp_all add: login_def post_def Let_def login_user_def login_password_def prompted_def
       split: reply.split option.split sum.split)

lemma prompted_frame:
  "heap (prompted user password w) = heap w" "disk (prompted user password w) = disk w"
  "server (prompted user password w) = server w" "posted (prompted user password w) = posted w"
  "rcfile (prompted user password w) = rcfile w"
  by (simp_all add: prompted_def)

lemma login_frame:
  "heap (snd (login url user password alias parser w)) = heap w \<and>
   disk (snd (login url user password alias parser w)) = disk w \<and>
   server (snd (login url user password alias parser w)) = server w"
  by (cases "truthy alias")
     (simp_all add: login_reply prompted_frame write_config_def
       split: reply.split option.split sum.split)

text \<open>\<^verbatim>\<open>_get_credentials\<close> by what the lookup found.\<close>

lemma get_credentials_lookup_failed:
  "lookup url user alias w = Inl e \<Longrightarrow>
     get_credentials url user password alias w = (Inl e, w)"
  by (simp add: get_credentials_def)

lemma get_credentials_no_session:
  "lookup url user alias w = Inr (url1, user1, session_id, parser) \<Longrightarrow> \<not> truthy session_id \<Longrightarrow>
     get_credentials url user password alias w =
       login (rstrip url1 (CHR ''/'')) user1 password alias parser w"
  by (simp add: get_credentials_def Let_def)

lemma get_credentials_probe:
  "lookup url user alias w = Inr (url1, user1, session_id, parser) \<Longrightarrow> truthy session_id \<Longrightarrow>
     get_credentials url user password alias w =
       (case server w (posted w) (probe_request (rstrip url1 (CHR ''/'')) (val session_id)) of
          RaiseConnectionError \<Rightarrow> (Inl ConnectionError,
            w\<lparr>posted := posted w @ [probe_request (rstrip url1 (CHR ''/'')) (val session_id)]\<rparr>)
        | RaiseMissingSchema \<Rightarrow> (Inl MissingSchema,
            w\<lparr>posted := posted w @ [probe_request (rstrip url1 (CHR ''/'')) (val session_id)]\<rparr>)
        | Response body js \<Rightarrow>
            if body \<noteq> []
            then login (rstrip url1 (CHR ''/'')) user1 password alias parser
              (w\<lparr>posted := posted w @
                 [probe_request (rstrip url1 (CHR ''/'')) (val session_id)]\<rparr>)
            else (Inr (rstrip url1 (CHR ''/''), val session_id),
              w\<lparr>posted := posted w @
                 [probe_request (rstrip url1 (CHR ''/'')) (val session_id)]\<rparr>))"
  by (simp add: get_credentials_def post_def Let_def split: reply.split)

lemma get_credentials_frame:
  "heap (snd (get_credentials url user password alias w)) = heap w \<and>
   disk (snd (get_credentials url user password alias w)) = disk w \<and>
   server (snd (get_credentials url user password alias w)) = server w"
proof (cases "lookup url user alias w")
  case (Inl e)
  then show ?thesis by (simp add: get_credentials_lookup_failed)
next
  case (Inr found)
  obtain url1 user1 session_id parser where f: "found = (url1, user1, session_id, parser)"
    by (cases found)
  note l = Inr [unfolded f]
  show ?thesis
  proof (cases "truthy session_id")
    case False
    show ?thesis
      unfolding get_credentials_no_session [OF l False] by (rule login_frame)
  next
    case True
    let ?w1 = "w\<lparr>posted := posted w @
        [probe_request (rstrip url1 (CHR ''/'')) (val session_id)]\<rparr>"
    have "heap (snd (login (rstrip url1 (CHR ''/'')) user1 password alias parser ?w1)) = heap w \<and>
      disk (snd (login (rstrip url1 (CHR ''/'')) user1 password alias parser ?w1)) = disk w \<and>
      server (snd (login (rstrip url1 (CHR ''/'')) user1 password alias parser ?w1)) = server w"
      using login_frame [of "rstrip url1 (CHR ''/'')" user1 password "alias" parser ?w1] by simp
    then show ?thesis
      unfolding get_credentials_probe [OF l True] by (simp split: reply.split)
  qed
qed

text \<open>\<^verbatim>\<open>upload\<close> and \<^verbatim>\<open>run\<close> by the reply of the server to their request.\<close>

lemma upload_reply:
  "get_credentials url user password alias w = (Inr (u, session_id), w1) \<Longrightarrow>
   disk w1 archive = Some z \<Longrightarrow>
     upload self archive url user password alias w =
       (case server w1 (posted w1) (upload_request u session_id (name (heap w1 self)) z) of
          RaiseConnectionError \<Rightarrow> (Inl (AzkabanError UnableToConnect),
            w1\<lparr>posted := posted w1 @ [upload_request u session_id (name (heap w1 self)) z]\<rparr>)
        | RaiseMissingSchema \<Rightarrow> (Inl (AzkabanError InvalidUrl),
            w1\<lparr>posted := posted w1 @ [upload_request u session_id (name (heap w1 self)) z]\<rparr>)
        | Response body js \<Rightarrow>
            (case js of
               None \<Rightarrow> (Inl (ValueError ''No JSON object could be decoded''),
                 w1\<lparr>posted := posted w1 @
                    [upload_request u session_id (name (heap w1 self)) z]\<rparr>)
             | Some res \<Rightarrow>
                 (case map_of res ''error'' of
                    Some err \<Rightarrow> (Inl (AzkabanError (ServerError err)),
                      w1\<lparr>posted := posted w1 @
                         [upload_request u session_id (name (heap w1 self)) z]\<rparr>)
                  | None \<Rightarrow>
                      (if map_of res ''projectId'' = None then Inl (KeyError ''projectId'')
                       else if map_of res ''version'' = None then Inl (KeyError ''version'')
                       else Inr res,
                       w1\<lparr>posted := posted w1 @
                          [upload_request u session_id (name (heap w1 self)) z]\<rparr>))))"
  by (auto simp: upload_def post_def split: reply.split option.split)

lemma run_reply:
  "get_credentials url user password alias w = (Inr (u, session_id), w1) \<Longrightarrow>
     run self flow url user password alias w =
       (case server w1 (posted w1) (run_request u session_id (name (heap w1 self)) flow) of
          RaiseConnectionError \<Rightarrow> (Inl (AzkabanError UnableToConnect),
            w1\<lparr>posted := posted w1 @ [run_request u session_id (name (heap w1 self)) flow]\<rparr>)
        | RaiseMissingSchema \<Rightarrow> (Inl (AzkabanError InvalidUrl),
            w1\<lparr>posted := posted w1 @ [run_request u session_id (name (heap w1 self)) flow]\<rparr>)
        | Response body js \<Rightarrow>
            (case js of
               None \<Rightarrow> (Inl (ValueError ''No JSON object could be decoded''),
                 w1\<lparr>posted := posted w1 @
                    [run_request u session_id (name (heap w1 self)) flow]\<rparr>)
             | Some res \<Rightarrow>
                 (case map_of res ''error'' of
                    Some err \<Rightarrow> (Inl (AzkabanError (ServerError err)),
                      w1\<lparr>posted := posted w1 @
                         [run_request u session_id (name (heap w1 self)) flow]\<rparr>)
                  | None \<Rightarrow>
                      (if map_of res ''execid'' = None then Inl (KeyError ''execid'')
                       else Inr res,
                       w1\<lparr>posted := posted w1 @
                          [run_request u session_id (name (heap w1 self)) flow]\<rparr>))))"
  by (auto simp: run_def post_def split: reply.split option.split)

text \<open>
  Claim C8. Once the credentials are resolved to a URL and a session id, \<^verbatim>\<open>upload\<close> makes one
  call of \<^verbatim>\<open>post\<close>: to \<^verbatim>\<open>/manager\<close> under that URL, with the action \<^verbatim>\<open>upload\<close>, the session id
  and the project name in the form and the archive attached (and none when the archive
  cannot be opened); \<^verbatim>\<open>run\<close> makes one call: to \<^verbatim>\<open>/executor\<close> under that URL, with the action
  \<^verbatim>\<open>executeFlow\<close>, the session id, the project name and the flow name. When the credentials
  cannot be resolved, neither posts anything more.
\<close>

theorem remote_requests:
  "(get_credentials url user password alias w = (Inr (u, session_id), w1) \<and>
    disk w archive = Some z \<longrightarrow>
      posted (snd (upload self archive url user password alias w)) =
        posted w1 @ [upload_request u session_id (name (heap w self)) z]) \<and>
   (get_credentials url user password alias w = (Inr (u, session_id), w1) \<and>
    disk w archive = None \<longrightarrow>
      posted (snd (upload self archive url user password alias w)) = posted w1) \<and>
   (get_credentials url user password alias w = (Inr (u, session_id), w1) \<longrightarrow>
      posted (snd (run self flow url user password alias w)) =
        posted w1 @ [run_request u session_id (name (heap w self)) flow]) \<and>
   (get_credentials url user password alias w = (Inl e, w1) \<longrightarrow>
      upload self archive url user password alias w = (Inl e, w1) \<and>
      run self flow url user password alias w = (Inl e, w1))"
proof (intro conjI impI)
  assume a: "get_credentials url user password alias w = (Inr (u, session_id), w1) \<and>
    disk w archive = Some z"
  then have g: "get_credentials url user password alias w = (Inr (u, session_id), w1)"
    by simp
  have w1: "heap w1 = heap w" "disk w1 = disk w"
    using get_credentials_frame [of url user password "alias" w] g by simp_all
  have d: "disk w1 archive = Some z" using a w1 by simp
  show "posted (snd (upload self archive url user password alias w)) =
        posted w1 @ [upload_request u session_id (name (heap w self)) z]"
    unfolding upload_reply [OF g d] w1 by (simp split: reply.split option.split)
next
  assume a: "get_credentials url user password alias w = (Inr (u, session_id), w1) \<and>
    disk w archive = None"
  then have w1: "disk w1 = disk w"
    using get_credentials_frame [of url user password "alias" w] by simp
  show "posted (snd (upload self archive url user password alias w)) = posted w1"
    using a w1 by (simp add: upload_def)
next
  assume g: "get_credentials url user password alias w = (Inr (u, session_id), w1)"
  then have w1: "heap w1 = heap w"
    using get_credentials_frame [of url user password "alias" w] by simp
  show "posted (snd (run self flow url user password alias w)) =
        posted w1 @ [run_request u session_id (name (heap w self)) flow]"
    unfolding run_reply [OF g] w1 by (simp split: reply.split option.split)
next
  assume a: "get_credentials url user password alias w = (Inl e, w1)"
  show "upload self archive url user password alias w = (Inl e, w1)"
    using a by (simp add: upload_def)
  show "run self flow url user password alias w = (Inl e, w1)"
    using a by (simp add: run_def)
qed

lemmas creds_defs = get_credentials_def lookup_def login_def post_def read_config_def
  has_section_def has_option_def get_def set_option_def write_config_def rstrip_def Let_def

lemma cached_credentials:
  "get_credentials None None None (Some ''prod'') cached =
     (Inr (''http://host:8081'', ''token1''),
      cached\<lparr>posted := [probe_request ''http://host:8081'' ''token1'']\<rparr>)"
  by (simp add: creds_defs cached_def online_def sample_def azkaban_def)

lemma cached_state:
  "disk cached ''/some/file.path'' = Some (Text ''data'')"
  "disk cached ''/tmp/foo.zip'' = None"
  "name (heap cached 0) = ''foo''"
  by (simp_all add: cached_def online_def sample_def)

theorem remote_requests_witness:
  "get_credentials None None None (Some ''prod'') cached =
     (Inr (''http://host:8081'', ''token1''),
      cached\<lparr>posted := [probe_request ''http://host:8081'' ''token1'']\<rparr>) \<and>
   disk cached ''/some/file.path'' = Some (Text ''data'') \<and>
   posted (snd (upload 0 ''/some/file.path'' None None None (Some ''prod'') cached)) =
     [probe_request ''http://host:8081'' ''token1'',
      upload_request ''http://host:8081'' ''token1'' ''foo'' (Text ''data'')] \<and>
   disk cached ''/tmp/foo.zip'' = None \<and>
   posted (snd (upload 0 ''/tmp/foo.zip'' None None None (Some ''prod'') cached)) =
     [probe_request ''http://host:8081'' ''token1''] \<and>
   posted (snd (run 0 ''bar'' None None None (Some ''prod'') cached)) =
     [probe_request ''http://host:8081'' ''token1'',
      run_request ''http://host:8081'' ''token1'' ''foo'' ''bar'']"
proof -
  note r = remote_requests [where url = None and user = None and password = None
      and w = cached and u = "''http://host:8081''"
      and session_id = "''token1''"
      and ?w1.0 = "cached\<lparr>posted := [probe_request ''http://host:8081'' ''token1'']\<rparr>"
      and self = 0]
  have a: "posted (snd (upload 0 ''/some/file.path'' None None None (Some ''prod'') cached)) =
      posted (cached\<lparr>posted := [probe_request ''http://host:8081'' ''token1'']\<rparr>) @
      [upload_request ''http://host:8081'' ''token1'' (name (heap cached 0)) (Text ''data'')]"
    using r [where archive = "''/some/file.path''" and z = "Text ''data''"]
      cached_credentials cached_state(1)
    by blast
  have b: "posted (snd (upload 0 ''/tmp/foo.zip'' None None None (Some ''prod'') cached)) =
      posted (cached\<lparr>posted := [probe_request ''http://host:8081'' ''token1'']\<rparr>)"
    using r [where archive = "''/tmp/foo.zip''"] cached_credentials cached_state(2)
    by blast
  have c: "posted (snd (run 0 ''bar'' None None None (Some ''prod'') cached)) =
      posted (cached\<lparr>posted := [probe_request ''http://host:8081'' ''token1'']\<rparr>) @
      [run_request ''http://host:8081'' ''token1'' (name (heap cached 0)) ''bar'']"
    using r [where flow = "''bar''"] cached_credentials
    by blast
  show ?thesis
    using a b c cached_credentials cached_state by simp
qed

text \<open>
  Claim C6, as stated: when the JSON response has no \<^verbatim>\<open>error\<close> field, the operation returns
  the parsed response. It does not when the response also lacks the fields that the success
  message formats: here the server answers the upload with an empty object, and \<^verbatim>\<open>upload\<close>
  raises \<^verbatim>\<open>KeyError\<close> where it reads \<^verbatim>\<open>res['projectId']\<close>.
\<close>

theorem upload_empty_reply_counterexample:
  "silent [login_request ''http://host:8081'' ''user'' ''secret'']
     (upload_request ''http://host:8081'' ''token1'' ''foo'' (Text ''data'')) =
     Response ''{}'' (Some []) \<and>
   map_of ([] :: (string \<times> string) list) ''error'' = None \<and>
   upload 0 ''/some/file.path'' (Some ''http://host:8081'') None (Some ''secret'') None mute =
     (Inl (KeyError ''projectId''),
      mute\<lparr>posted := [login_request ''http://host:8081'' ''user'' ''secret'',
         upload_request ''http://host:8081'' ''token1'' ''foo'' (Text ''data'')]\<rparr>)"
  by (simp add: upload_def creds_defs mute_def sample_def silent_def)

text \<open>
  Claim C6, amended. For \<^verbatim>\<open>upload\<close> and \<^verbatim>\<open>run\<close>, when the JSON response to the request has an
  \<^verbatim>\<open>error\<close> field, the operation raises \<^verbatim>\<open>AzkabanError\<close> carrying that message; when it has
  none and holds the relevant fields (\<^verbatim>\<open>projectId\<close> and \<^verbatim>\<open>version\<close> for \<^verbatim>\<open>upload\<close>, \<^verbatim>\<open>execid\<close> for
  \<^verbatim>\<open>run\<close>), the operation returns the parsed response.
\<close>

theorem remote_responses:
  "(get_credentials url user password alias w = (Inr (u, session_id), w1) \<and>
    disk w archive = Some z \<and>
    server w (posted w1) (upload_request u session_id (name (heap w self)) z) =
      Response body (Some res) \<longrightarrow>
      (map_of res ''error'' = Some err \<longrightarrow>
         fst (upload self archive url user password alias w) =
           Inl (AzkabanError (ServerError err))) \<and>
      (map_of res ''error'' = None \<and> map_of res ''projectId'' \<noteq> None \<and>
       map_of res ''version'' \<noteq> None \<longrightarrow>
         fst (upload self archive url user password alias w) = Inr res)) \<and>
   (get_credentials url user password alias w = (Inr (u, session_id), w1) \<and>
    server w (posted w1) (run_request u session_id (name (heap w self)) flow) =
      Response body (Some res) \<longrightarrow>
      (map_of res ''error'' = Some err \<longrightarrow>
         fst (run self flow url user password alias w) =
           Inl (AzkabanError (ServerError err))) \<and>
      (map_of res ''error'' = None \<and> map_of res ''execid'' \<noteq> None \<longrightarrow>
         fst (run self flow url user password alias w) = Inr res))"
proof (intro conjI impI)
  assume a: "get_credentials url user password alias w = (Inr (u, session_id), w1) \<and>
    disk w archive = Some z \<and>
    server w (posted w1) (upload_request u session_id (name (heap w self)) z) =
      Response body (Some res)"
  then have g: "get_credentials url user password alias w = (Inr (u, session_id), w1)"
    by simp
  have w1: "heap w1 = heap w" "disk w1 = disk w" "server w1 = server w"
    using get_credentials_frame [of url user password "alias" w] g by simp_all
  have d: "disk w1 archive = Some z" using a w1 by simp
  have r: "server w1 (posted w1) (upload_request u session_id (name (heap w1 self)) z) =
      Response body (Some res)"
    using a w1 by simp
  {
    assume "map_of res ''error'' = Some err"
    then show "fst (upload self archive url user password alias w) =
        Inl (AzkabanError (ServerError err))"
      unfolding upload_reply [OF g d] r by simp
  }
  {
    assume "map_of res ''error'' = None \<and> map_of res ''projectId'' \<noteq> None \<and>
       map_of res ''version'' \<noteq> None"
    then show "fst (upload self archive url user password alias w) = Inr res"
      unfolding upload_reply [OF g d] r by simp
  }
next
  assume a: "get_credentials url user password alias w = (Inr (u, session_id), w1) \<and>
    server w (posted w1) (run_request u session_id (name (heap w self)) flow) =
      Response body (Some res)"
  then have g: "get_credentials url user password alias w = (Inr (u, session_id), w1)"
    by simp
  have w1: "heap w1 = heap w" "server w1 = server w"
    using get_credentials_frame [of url user password "alias" w] g by simp_all
  have r: "server w1 (posted w1) (run_request u session_id (name (heap w1 self)) flow) =
      Response body (Some res)"
    using a w1 by simp
  {
    assume "map_of res ''error'' = Some err"
    then show "fst (run self flow url user password alias w) =
        Inl (AzkabanError (ServerError err))"
      unfolding run_reply [OF g] r by simp
  }
  {
    assume "map_of res ''error'' = None \<and> map_of res ''execid'' \<noteq> None"
    then show "fst (run self flow url user password alias w) = Inr res"
      unfolding run_reply [OF g] r by simp
  }
qed

lemma stranger_credentials:
  "get_credentials None None None (Some ''prod'') stranger =
     (Inr (''http://host:8081'', ''token1''),
      stranger\<lparr>posted := [probe_request ''http://host:8081'' ''token1'']\<rparr>)"
  by (simp add: creds_defs stranger_def cached_def online_def sample_def azkaban_def)

lemma cached_replies:
  "server cached [probe_request ''http://host:8081'' ''token1'']
     (upload_request ''http://host:8081'' ''token1'' ''foo'' (Text ''data'')) =
     Response ''{projectId, version}'' (Some [(''projectId'', ''1''), (''version'', ''1'')])"
  "server cached [probe_request ''http://host:8081'' ''token1'']
     (run_request ''http://host:8081'' ''token1'' ''foo'' ''bar'') =
     Response ''{message, project, flow, execid}''
       (Some [(''message'', ''Execution submitted successfully with exec id 5''),
              (''project'', ''foo''), (''flow'', ''bar''), (''execid'', ''5'')])"
  "server cached [probe_request ''http://host:8081'' ''token1'']
     (run_request ''http://host:8081'' ''token1'' ''foo'' ''baz'') =
     Response ''{error}'' (Some [(''error'', ''Flow not found.'')])"
  by (simp_all add: cached_def online_def sample_def azkaban_def)

lemma stranger_replies:
  "disk stranger ''/some/file.path'' = Some (Text ''data'')"
  "name (heap stranger 0) = ''nobody''"
  "server stranger [probe_request ''http://host:8081'' ''token1'']
     (upload_request ''http://host:8081'' ''token1'' ''nobody'' (Text ''data'')) =
     Response ''{error}'' (Some [(''error'', ''Project not found.'')])"
  by (simp_all add: stranger_def cached_def online_def sample_def azkaban_def)

theorem remote_responses_witness:
  "fst (upload 0 ''/some/file.path'' None None None (Some ''prod'') cached) =
     Inr [(''projectId'', ''1''), (''version'', ''1'')] \<and>
   fst (upload 0 ''/some/file.path'' None None None (Some ''prod'') stranger) =
     Inl (AzkabanError (ServerError ''Project not found.'')) \<and>
   fst (run 0 ''bar'' None None None (Some ''prod'') cached) =
     Inr [(''message'', ''Execution submitted successfully with exec id 5''),
          (''project'', ''foo''), (''flow'', ''bar''), (''execid'', ''5'')] \<and>
   fst (run 0 ''baz'' None None None (Some ''prod'') cached) =
     Inl (AzkabanError (ServerError ''Flow not found.''))"
proof -
  let ?probed = "[probe_request ''http://host:8081'' ''token1'']"
  have p: "posted (cached\<lparr>posted := ?probed\<rparr>) = ?probed"
    "posted (stranger\<lparr>posted := ?probed\<rparr>) = ?probed"
    by simp_all
  have up: "server cached (posted (cached\<lparr>posted := ?probed\<rparr>))
     (upload_request ''http://host:8081'' ''token1'' (name (heap cached 0)) (Text ''data'')) =
     Response ''{projectId, version}'' (Some [(''projectId'', ''1''), (''version'', ''1'')])"
    unfolding p cached_state by (rule cached_replies)
  have fields: "map_of [(''projectId'', ''1''), (''version'', ''1'')] ''error'' = None \<and>
      map_of [(''projectId'', ''1''), (''version'', ''1'')] ''projectId'' \<noteq> None \<and>
      map_of [(''projectId'', ''1''), (''version'', ''1'')] ''version'' \<noteq> (None :: string option)"
    by simp
  have a: "fst (upload 0 ''/some/file.path'' None None None (Some ''prod'') cached) =
      Inr [(''projectId'', ''1''), (''version'', ''1'')]"
    using remote_responses [where w = cached and self = 0 and archive = "''/some/file.path''"
        and z = "Text ''data''" and u = "''http://host:8081''" and session_id = "''token1''"
        and ?w1.0 = "cached\<lparr>posted := ?probed\<rparr>" and url = None and user = None
        and password = None
        and res = "[(''projectId'', ''1''), (''version'', ''1'')]"]
      cached_credentials cached_state(1) up fields
    by blast
  have down: "server stranger (posted (stranger\<lparr>posted := ?probed\<rparr>))
     (upload_request ''http://host:8081'' ''token1'' (name (heap stranger 0)) (Text ''data'')) =
     Response ''{error}'' (Some [(''error'', ''Project not found.'')])"
    unfolding p stranger_replies(2) by (rule stranger_replies)
  have err1: "map_of [(''error'', ''Project not found.'')] ''error'' = Some ''Project not found.''"
    by simp
  have b: "fst (upload 0 ''/some/file.path'' None None None (Some ''prod'') stranger) =
      Inl (AzkabanError (ServerError ''Project not found.''))"
    using remote_responses [where w = stranger and self = 0 and archive = "''/some/file.path''"
        and z = "Text ''data''" and u = "''http://host:8081''" and session_id = "''token1''"
        and ?w1.0 = "stranger\<lparr>posted := ?probed\<rparr>" and url = None and user = None
        and password = None
        and res = "[(''error'', ''Project not found.'')]" and err = "''Project not found.''"]
      stranger_credentials stranger_replies(1) down err1
    by blast
  have started: "server cached (posted (cached\<lparr>posted := ?probed\<rparr>))
     (run_request ''http://host:8081'' ''token1'' (name (heap cached 0)) ''bar'') =
     Response ''{message, project, flow, execid}''
       (Some [(''message'', ''Execution submitted successfully with exec id 5''),
              (''project'', ''foo''), (''flow'', ''bar''), (''execid'', ''5'')])"
    unfolding p cached_state by (rule cached_replies)
  have id: "map_of [(''message'', ''Execution submitted successfully with exec id 5''),
              (''project'', ''foo''), (''flow'', ''bar''), (''execid'', ''5'')] ''error'' = None \<and>
      map_of [(''message'', ''Execution submitted successfully with exec id 5''),
              (''project'', ''foo''), (''flow'', ''bar''), (''execid'', ''5'')] ''execid'' \<noteq>
        (None :: string option)"
    by simp
  have c: "fst (run 0 ''bar'' None None None (Some ''prod'') cached) =
     Inr [(''message'', ''Execution submitted successfully with exec id 5''),
          (''project'', ''foo''), (''flow'', ''bar''), (''execid'', ''5'')]"
    using remote_responses [where w = cached and self = 0 and flow = "''bar''"
        and u = "''http://host:8081''" and session_id = "''token1''"
        and ?w1.0 = "cached\<lparr>posted := ?probed\<rparr>" and url = None and user = None
        and password = None
        and res = "[(''message'', ''Execution submitted successfully with exec id 5''),
              (''project'', ''foo''), (''flow'', ''bar''), (''execid'', ''5'')]"]
      cached_credentials started id
    by blast
  have refused: "server cached (posted (cached\<lparr>posted := ?probed\<rparr>))
     (run_request ''http://host:8081'' ''token1'' (name (heap cached 0)) ''baz'') =
     Response ''{error}'' (Some [(''error'', ''Flow not found.'')])"
    unfolding p cached_state by (rule cached_replies)
  have err2: "map_of [(''error'', ''Flow not found.'')] ''error'' = Some ''Flow not found.''"
    by simp
  have d: "fst (run 0 ''baz'' None None None (Some ''prod'') cached) =
     Inl (AzkabanError (ServerError ''Flow not found.''))"
    using remote_responses [where w = cached and self = 0 and flow = "''baz''"
        and u = "''http://host:8081''" and session_id = "''token1''"
        and ?w1.0 = "cached\<lparr>posted := ?probed\<rparr>" and url = None and user = None
        and password = None
        and res = "[(''error'', ''Flow not found.'')]" and err = "''Flow not found.''"]
      cached_credentials refused err2
    by blast
  show ?thesis
    using a b c d by blast
qed

text \<open>The options \<^verbatim>\<open>user\<close> and \<^verbatim>\<open>session_id\<close> always have a default.\<close>

lemma fold_update_keeps:
  "map_of al k \<noteq> None \<Longrightarrow> map_of (fold (\<lambda>(k, v). AList.update k v) xs al) k \<noteq> None"
proof (induction xs arbitrary: al)
  case Nil
  then show ?case by simp
next
  case (Cons x xs)
  obtain k0 v0 where x: "x = (k0, v0)" by (cases x)
  have "map_of (AList.update k0 v0 al) k \<noteq> None"
    using Cons.prems by (simp add: update_conv')
  then show ?case using Cons.IH x by simp
qed

lemma read_config_defaults:
  "map_of (cfg_defaults (read_config w)) ''user'' \<noteq> None"
  "map_of (cfg_defaults (read_config w)) ''session_id'' \<noteq> None"
proof -
  let ?init = "[(''user'', []), (''session_id'', [])] :: (string \<times> string) list"
  have u: "map_of ?init ''user'' \<noteq> None" and s: "map_of ?init ''session_id'' \<noteq> None"
    by simp_all
  show "map_of (cfg_defaults (read_config w)) ''user'' \<noteq> None"
    using fold_update_keeps [OF u] by (cases "rcfile w") (simp_all add: read_config_def)
  show "map_of (cfg_defaults (read_config w)) ''session_id'' \<noteq> None"
    using fold_update_keeps [OF s] by (cases "rcfile w") (simp_all add: read_config_def)
qed

lemma get_default:
  "has_section parser section \<Longrightarrow> map_of (cfg_defaults parser) option \<noteq> None \<Longrightarrow>
     \<exists>v. get parser section option = Inr v"
  by (auto simp: has_section_def get_def split: option.split)

lemma get_option:
  "has_section parser section \<Longrightarrow> has_option parser section option \<Longrightarrow>
     \<exists>v. get parser section option = Inr v"
  by (auto simp: has_section_def has_option_def get_def split: option.split if_splits)

lemma lookup_found:
  "truthy alias \<Longrightarrow> has_section (read_config w) (val alias) \<Longrightarrow>
   has_option (read_config w) (val alias) ''url'' \<Longrightarrow>
   get (read_config w) (val alias) ''url'' = Inr url1 \<Longrightarrow>
   get (read_config w) (val alias) ''user'' = Inr user1 \<Longrightarrow>
   get (read_config w) (val alias) ''session_id'' = Inr session_id \<Longrightarrow>
     lookup url user alias w = Inr (url1, Some user1, Some session_id, read_config w)"
  by (simp add: lookup_def Let_def)

lemma login_caches:
  assumes "truthy alias" and "val alias \<noteq> ''DEFAULT''"
    and "map_of (cfg_sections parser) (val alias) = Some opts"
    and "server v (posted v) (login_request u (login_user usr v) (login_password password v)) =
      Response body (Some res)"
    and "map_of res ''error'' = None" and "map_of res ''session.id'' = Some s"
  shows "login u usr password alias parser v =
      (Inr (u, s),
       (prompted usr password v)
         \<lparr>posted := posted v @ [login_request u (login_user usr v) (login_password password v)],
          rcfile := Some (parser\<lparr>cfg_sections :=
            AList.update (val alias) (AList.update ''session_id'' s opts)
              (cfg_sections parser)\<rparr>)\<rparr>)"
proof -
  have "val alias \<noteq> []" using assms(1) by (cases "alias") simp_all
  then have "set_option parser (val alias) ''session_id'' s =
      Inr (parser\<lparr>cfg_sections :=
        AList.update (val alias) (AList.update ''session_id'' s opts) (cfg_sections parser)\<rparr>)"
    using assms(2,3) by (simp add: set_option_def)
  then show ?thesis
    unfolding login_reply assms(4) using assms(1,5,6) by (simp add: write_config_def)
qed

text \<open>
  Claim C7. With an alias, \<^verbatim>\<open>_get_credentials\<close> reads the credential file: it raises
  \<^verbatim>\<open>AzkabanError\<close> when the file has no section for the alias or the section has no \<^verbatim>\<open>url\<close>,
  and otherwise takes the URL, the user and the cached session id from there. A cached
  session id is probed; when the probe comes back empty, the URL (without trailing slashes)
  and the cached id are returned and nothing else happens. When there is no cached id, or
  the probe comes back with a body, it logs in: it prompts for the password only when none
  was supplied, posts user and password, and when the reply holds a session id and no error,
  returns it and writes it to the credential file under the alias.
\<close>

theorem credentials_with_alias:
  assumes "truthy alias"
  shows
   "(\<not> has_section (read_config w) (val alias) \<longrightarrow>
       get_credentials url user password alias w =
         (Inl (AzkabanError (MissingAlias (val alias))), w)) \<and>
    (has_section (read_config w) (val alias) \<and>
     \<not> has_option (read_config w) (val alias) ''url'' \<longrightarrow>
       get_credentials url user password alias w =
         (Inl (AzkabanError (MissingUrlForAlias (val alias))), w)) \<and>
    (has_section (read_config w) (val alias) \<and>
     has_option (read_config w) (val alias) ''url'' \<longrightarrow>
       (\<exists>url1 user1 session_id.
          get (read_config w) (val alias) ''url'' = Inr url1 \<and>
          get (read_config w) (val alias) ''user'' = Inr user1 \<and>
          get (read_config w) (val alias) ''session_id'' = Inr session_id)) \<and>
    (has_section (read_config w) (val alias) \<and>
     has_option (read_config w) (val alias) ''url'' \<and>
     get (read_config w) (val alias) ''url'' = Inr url1 \<and>
     get (read_config w) (val alias) ''user'' = Inr user1 \<and>
     get (read_config w) (val alias) ''session_id'' = Inr session_id \<longrightarrow>
       (session_id = [] \<longrightarrow>
          get_credentials url user password alias w =
            login (rstrip url1 (CHR ''/'')) (Some user1) password alias (read_config w) w) \<and>
       (session_id \<noteq> [] \<and>
        server w (posted w) (probe_request (rstrip url1 (CHR ''/'')) session_id) =
          Response [] js \<longrightarrow>
          get_credentials url user password alias w =
            (Inr (rstrip url1 (CHR ''/''), session_id),
             w\<lparr>posted := posted w @ [probe_request (rstrip url1 (CHR ''/'')) session_id]\<rparr>)) \<and>
       (session_id \<noteq> [] \<and> body \<noteq> [] \<and>
        server w (posted w) (probe_request (rstrip url1 (CHR ''/'')) session_id) =
          Response body js \<longrightarrow>
          get_credentials url user password alias w =
            login (rstrip url1 (CHR ''/'')) (Some user1) password alias (read_config w)
              (w\<lparr>posted := posted w @
                 [probe_request (rstrip url1 (CHR ''/'')) session_id]\<rparr>))) \<and>
    (val alias \<noteq> ''DEFAULT'' \<and> map_of (cfg_sections parser) (val alias) = Some opts \<and>
     server v (posted v) (login_request u (login_user usr v) (login_password password v)) =
       Response reply (Some res) \<and>
     map_of res ''error'' = None \<and> map_of res ''session.id'' = Some s \<longrightarrow>
       login u usr password alias parser v =
         (Inr (u, s),
          (prompted usr password v)
            \<lparr>posted := posted v @
               [login_request u (login_user usr v) (login_password password v)],
             rcfile := Some (parser\<lparr>cfg_sections :=
               AList.update (val alias) (AList.update ''session_id'' s opts)
                 (cfg_sections parser)\<rparr>)\<rparr>)) \<and>
    (truthy password \<longrightarrow>
       login_password password v = val password \<and> prompted usr password v = v) \<and>
    (\<not> truthy password \<longrightarrow>
       login_password password v = getpass v \<and>
       prompted usr password v =
         v\<lparr>prompts := prompts v @ [''azkaban password for '' @ login_user usr v @ '': '']\<rparr>)"
proof (intro conjI impI)
  assume "\<not> has_section (read_config w) (val alias)"
  then have "lookup url user alias w = Inl (AzkabanError (MissingAlias (val alias)))"
    using assms by (simp add: lookup_def Let_def)
  then show "get_credentials url user password alias w =
      (Inl (AzkabanError (MissingAlias (val alias))), w)"
    by (rule get_credentials_lookup_failed)
next
  assume "has_section (read_config w) (val alias) \<and>
     \<not> has_option (read_config w) (val alias) ''url''"
  then have "lookup url user alias w = Inl (AzkabanError (MissingUrlForAlias (val alias)))"
    using assms by (simp add: lookup_def Let_def)
  then show "get_credentials url user password alias w =
      (Inl (AzkabanError (MissingUrlForAlias (val alias))), w)"
    by (rule get_credentials_lookup_failed)
next
  assume a: "has_section (read_config w) (val alias) \<and>
     has_option (read_config w) (val alias) ''url''"
  then show "\<exists>url1 user1 session_id.
          get (read_config w) (val alias) ''url'' = Inr url1 \<and>
          get (read_config w) (val alias) ''user'' = Inr user1 \<and>
          get (read_config w) (val alias) ''session_id'' = Inr session_id"
    using get_option [of "read_config w" "val alias" "''url''"]
      get_default [OF _ read_config_defaults(1), of w "val alias"]
      get_default [OF _ read_config_defaults(2), of w "val alias"]
    by blast
next
  assume a: "has_section (read_config w) (val alias) \<and>
     has_option (read_config w) (val alias) ''url'' \<and>
     get (read_config w) (val alias) ''url'' = Inr url1 \<and>
     get (read_config w) (val alias) ''user'' = Inr user1 \<and>
     get (read_config w) (val alias) ''session_id'' = Inr session_id"
  then have l: "lookup url user alias w =
      Inr (url1, Some user1, Some session_id, read_config w)"
    using assms lookup_found by blast
  {
    assume "session_id = []"
    then have "\<not> truthy (Some session_id)" by simp
    from get_credentials_no_session [OF l this]
    show "get_credentials url user password alias w =
        login (rstrip url1 (CHR ''/'')) (Some user1) password alias (read_config w) w" .
  }
  {
    assume b: "session_id \<noteq> [] \<and>
        server w (posted w) (probe_request (rstrip url1 (CHR ''/'')) session_id) =
          Response [] js"
    then have "truthy (Some session_id)" by simp
    from get_credentials_probe [OF l this]
    show "get_credentials url user password alias w =
        (Inr (rstrip url1 (CHR ''/''), session_id),
         w\<lparr>posted := posted w @ [probe_request (rstrip url1 (CHR ''/'')) session_id]\<rparr>)"
      using b by simp
  }
  {
    assume b: "session_id \<noteq> [] \<and> body \<noteq> [] \<and>
        server w (posted w) (probe_request (rstrip url1 (CHR ''/'')) session_id) =
          Response body js"
    then have "truthy (Some session_id)" by simp
    from get_credentials_probe [OF l this]
    show "get_credentials url user password alias w =
        login (rstrip url1 (CHR ''/'')) (Some user1) password alias (read_config w)
          (w\<lparr>posted := posted w @
             [probe_request (rstrip url1 (CHR ''/'')) session_id]\<rparr>)"
      using b by simp
  }
next
  assume "val alias \<noteq> ''DEFAULT'' \<and> map_of (cfg_sections parser) (val alias) = Some opts \<and>
     server v (posted v) (login_request u (login_user usr v) (login_password password v)) =
       Response reply (Some res) \<and>
     map_of res ''error'' = None \<and> map_of res ''session.id'' = Some s"
  then show "login u usr password alias parser v =
         (Inr (u, s),
          (prompted usr password v)
            \<lparr>posted := posted v @
               [login_request u (login_user usr v) (login_password password v)],
             rcfile := Some (parser\<lparr>cfg_sections :=
               AList.update (val alias) (AList.update ''session_id'' s opts)
                 (cfg_sections parser)\<rparr>)\<rparr>)"
    using login_caches [OF assms] by blast
next
  assume "truthy password"
  then show "login_password password v = val password" and "prompted usr password v = v"
    by (simp_all add: login_password_def prompted_def)
next
  assume "\<not> truthy password"
  then show "login_password password v = getpass v"
    and "prompted usr password v =
         v\<lparr>prompts := prompts v @ [''azkaban password for '' @ login_user usr v @ '': '']\<rparr>"
    by (simp_all add: login_password_def prompted_def)
qed

lemma sample_configs:
  "read_config online = \<lparr>cfg_defaults = [(''user'', []), (''session_id'', [])], cfg_sections = []\<rparr>"
  "read_config nourl = \<lparr>cfg_defaults = [(''user'', []), (''session_id'', [])],
     cfg_sections = [(''prod'', [(''user'', ''alice'')])]\<rparr>"
  "read_config cached = \<lparr>cfg_defaults = [(''user'', []), (''session_id'', [])],
     cfg_sections = [(''prod'', [(''url'', ''http://host:8081/''), (''user'', ''alice''),
                                (''session_id'', ''token1'')])]\<rparr>"
  "read_config expired = \<lparr>cfg_defaults = [(''user'', []), (''session_id'', [])],
     cfg_sections = [(''prod'', [(''url'', ''http://host:8081/''), (''user'', ''alice''),
                                (''session_id'', ''token0'')])]\<rparr>"
  by (simp_all add: read_config_def online_def nourl_def cached_def expired_def sample_def)

lemma sample_servers:
  "server cached = azkaban" "server expired = azkaban"
  "posted cached = []" "posted expired = []"
  "getuser expired = ''user''" "getpass expired = ''secret''" "prompts expired = []"
  by (simp_all add: online_def cached_def expired_def sample_def)

theorem credentials_with_alias_witness:
  "truthy (Some ''prod'') \<and>
   get_credentials None None None (Some ''prod'') online =
     (Inl (AzkabanError (MissingAlias ''prod'')), online) \<and>
   get_credentials None None None (Some ''prod'') nourl =
     (Inl (AzkabanError (MissingUrlForAlias ''prod'')), nourl) \<and>
   get_credentials None None None (Some ''prod'') cached =
     (Inr (''http://host:8081'', ''token1''),
      cached\<lparr>posted := [probe_request ''http://host:8081'' ''token1'']\<rparr>) \<and>
   get_credentials None None None (Some ''prod'') expired =
     (Inr (''http://host:8081'', ''token1''),
      expired\<lparr>prompts := [''azkaban password for alice: ''],
        posted := [probe_request ''http://host:8081'' ''token0'',
                   login_request ''http://host:8081'' ''alice'' ''secret''],
        rcfile := Some \<lparr>cfg_defaults = [(''user'', []), (''session_id'', [])],
          cfg_sections = [(''prod'', [(''url'', ''http://host:8081/''), (''user'', ''alice''),
                                     (''session_id'', ''token1'')])]\<rparr>\<rparr>)"
proof -
  have t: "truthy (Some ''prod'')" by simp
  have v: "val (Some ''prod'') = ''prod''" by simp
  note inst = credentials_with_alias [OF t, unfolded v]
  have "\<not> has_section (read_config online) ''prod''"
    by (simp add: sample_configs has_section_def)
  then have c1: "get_credentials None None None (Some ''prod'') online =
      (Inl (AzkabanError (MissingAlias ''prod'')), online)"
    using inst [where w = online and url = None and user = None and password = None] by blast
  have "has_section (read_config nourl) ''prod'' \<and>
      \<not> has_option (read_config nourl) ''prod'' ''url''"
    by (simp add: sample_configs has_section_def has_option_def)
  then have c2: "get_credentials None None None (Some ''prod'') nourl =
      (Inl (AzkabanError (MissingUrlForAlias ''prod'')), nourl)"
    using inst [where w = nourl and url = None and user = None and password = None] by blast
  have found: "has_section (read_config cached) ''prod'' \<and>
      has_option (read_config cached) ''prod'' ''url'' \<and>
      get (read_config cached) ''prod'' ''url'' = Inr ''http://host:8081/'' \<and>
      get (read_config cached) ''prod'' ''user'' = Inr ''alice'' \<and>
      get (read_config cached) ''prod'' ''session_id'' = Inr ''token1''"
    by (simp add: sample_configs has_section_def has_option_def get_def)
  have strip: "rstrip ''http://host:8081/'' (CHR ''/'') = ''http://host:8081''"
    by (simp add: rstrip_def)
  have valid: "''token1'' \<noteq> [] \<and>
      server cached (posted cached)
        (probe_request (rstrip ''http://host:8081/'' (CHR ''/'')) ''token1'') = Response [] None"
    by (simp add: strip sample_servers azkaban_def)
  have "get_credentials None None None (Some ''prod'') cached =
      (Inr (rstrip ''http://host:8081/'' (CHR ''/''), ''token1''),
       cached\<lparr>posted := posted cached @
          [probe_request (rstrip ''http://host:8081/'' (CHR ''/'')) ''token1'']\<rparr>)"
    using inst [where w = cached and url = None and user = None and password = None
        and ?url1.0 = "''http://host:8081/''" and ?user1.0 = "''alice''"
        and session_id = "''token1''" and js = None] found valid
    by blast
  then have c3: "get_credentials None None None (Some ''prod'') cached =
      (Inr (''http://host:8081'', ''token1''),
       cached\<lparr>posted := [probe_request ''http://host:8081'' ''token1'']\<rparr>)"
    by (simp add: strip sample_servers)
  let ?probed = "expired\<lparr>posted := posted expired @
      [probe_request (rstrip ''http://host:8081/'' (CHR ''/'')) ''token0'']\<rparr>"
  have stale: "has_section (read_config expired) ''prod'' \<and>
      has_option (read_config expired) ''prod'' ''url'' \<and>
      get (read_config expired) ''prod'' ''url'' = Inr ''http://host:8081/'' \<and>
      get (read_config expired) ''prod'' ''user'' = Inr ''alice'' \<and>
      get (read_config expired) ''prod'' ''session_id'' = Inr ''token0''"
    by (simp add: sample_configs has_section_def has_option_def get_def)
  have invalid: "''token0'' \<noteq> [] \<and> ''<html>'' \<noteq> [] \<and>
      server expired (posted expired)
        (probe_request (rstrip ''http://host:8081/'' (CHR ''/'')) ''token0'') =
      Response ''<html>'' None"
    by (simp add: strip sample_servers azkaban_def)
  have relogin: "get_credentials None None None (Some ''prod'') expired =
      login (rstrip ''http://host:8081/'' (CHR ''/'')) (Some ''alice'') None (Some ''prod'')
        (read_config expired) ?probed"
    using inst [where w = expired and url = None and user = None and password = None
        and ?url1.0 = "''http://host:8081/''" and ?user1.0 = "''alice''"
        and session_id = "''token0''" and js = None and body = "''<html>''"] stale invalid
    by blast
  have who: "login_user (Some ''alice'') ?probed = ''alice''"
    by (simp add: login_user_def)
  have typed: "login_password None ?probed = ''secret'' \<and>
      prompted (Some ''alice'') None ?probed =
        ?probed\<lparr>prompts := [''azkaban password for alice: '']\<rparr>"
    using inst [where password = None and v = ?probed and usr = "Some ''alice''"] who
    by (simp add: sample_servers)
  have granted: "''prod'' \<noteq> ''DEFAULT'' \<and>
      map_of (cfg_sections (read_config expired)) ''prod'' =
        Some [(''url'', ''http://host:8081/''), (''user'', ''alice''), (''session_id'', ''token0'')] \<and>
      server ?probed (posted ?probed)
        (login_request (rstrip ''http://host:8081/'' (CHR ''/''))
           (login_user (Some ''alice'') ?probed) (login_password None ?probed)) =
        Response ''{status, session.id}''
          (Some [(''status'', ''success''), (''session.id'', ''token1'')]) \<and>
      map_of [(''status'', ''success''), (''session.id'', ''token1'')] ''error'' = None \<and>
      map_of [(''status'', ''success''), (''session.id'', ''token1'')] ''session.id'' =
        Some ''token1''"
    using who typed by (simp add: strip sample_configs sample_servers azkaban_def)
  have "login (rstrip ''http://host:8081/'' (CHR ''/'')) (Some ''alice'') None (Some ''prod'')
        (read_config expired) ?probed =
      (Inr (rstrip ''http://host:8081/'' (CHR ''/''), ''token1''),
       (prompted (Some ''alice'') None ?probed)
         \<lparr>posted := posted ?probed @
            [login_request (rstrip ''http://host:8081/'' (CHR ''/''))
               (login_user (Some ''alice'') ?probed) (login_password None ?probed)],
          rcfile := Some ((read_config expired)\<lparr>cfg_sections :=
            AList.update ''prod''
              (AList.update ''session_id'' ''token1''
                 [(''url'', ''http://host:8081/''), (''user'', ''alice''),
                  (''session_id'', ''token0'')])
              (cfg_sections (read_config expired))\<rparr>)\<rparr>)"
    using inst [where password = None and v = ?probed and usr = "Some ''alice''"
        and parser = "read_config expired"
        and u = "rstrip ''http://host:8081/'' (CHR ''/'')" and s = "''token1''"
        and res = "[(''status'', ''success''), (''session.id'', ''token1'')]"
        and reply = "''{status, session.id}''"
        and opts = "[(''url'', ''http://host:8081/''), (''user'', ''alice''),
                     (''session_id'', ''token0'')]"] granted
    by blast
  then have c4: "get_credentials None None None (Some ''prod'') expired =
     (Inr (''http://host:8081'', ''token1''),
      expired\<lparr>prompts := [''azkaban password for alice: ''],
        posted := [probe_request ''http://host:8081'' ''token0'',
                   login_request ''http://host:8081'' ''alice'' ''secret''],
        rcfile := Some \<lparr>cfg_defaults = [(''user'', []), (''session_id'', [])],
          cfg_sections = [(''prod'', [(''url'', ''http://host:8081/''), (''user'', ''alice''),
                                     (''session_id'', ''token1'')])]\<rparr>\<rparr>)"
    using relogin who typed by (simp add: strip sample_configs sample_servers)
  show ?thesis
    using t c1 c2 c3 c4 by blast
qed

section \<open>Error handling\<close>

text \<open>
  Claim C2, as stated: credential resolution only ever signals failure through
  \<^verbatim>\<open>AzkabanError\<close>, which \<^verbatim>\<open>main\<close> turns into a message and a non-zero exit. Called with neither
  an alias nor a URL, \<^verbatim>\<open>_get_credentials\<close> raises \<^verbatim>\<open>ValueError\<close>, and \<^verbatim>\<open>main\<close>, which catches
  \<^verbatim>\<open>AzkabanError\<close> only, lets it through.
\<close>

theorem credentials_value_error_counterexample:
  "get_credentials None None None None sample =
     (Inl (ValueError ''Either url or alias must be specified.''), sample) \<and>
   main 0 True (Run ''bar'' None None None) sample =
     (Inl (ValueError ''Either url or alias must be specified.''), sample)"
  by (simp add: get_credentials_def lookup_def main_def dispatch_def run_def)

text \<open>
  Claim C2, amended. The failures the code provides for are raised as \<^verbatim>\<open>AzkabanError\<close>: in
  credential resolution a missing alias section, a missing \<^verbatim>\<open>url\<close> option, a refused
  connection or a malformed URL at login and an \<^verbatim>\<open>error\<close> field in the login response; in
  \<^verbatim>\<open>upload\<close> a missing archive; in \<^verbatim>\<open>upload\<close> and \<^verbatim>\<open>run\<close> a refused connection or a malformed
  URL. Inside its \<^verbatim>\<open>try\<close> block \<^verbatim>\<open>main\<close> catches \<^verbatim>\<open>AzkabanError\<close>, hands the message to the logger
  and exits with status 1. Credential resolution with neither an alias nor a URL raises
  \<^verbatim>\<open>ValueError\<close> instead.
\<close>

theorem domain_errors:
  "(truthy alias \<and> \<not> has_section (read_config w) (val alias) \<longrightarrow>
      get_credentials url user password alias w =
        (Inl (AzkabanError (MissingAlias (val alias))), w)) \<and>
   (truthy alias \<and> has_section (read_config w) (val alias) \<and>
    \<not> has_option (read_config w) (val alias) ''url'' \<longrightarrow>
      get_credentials url user password alias w =
        (Inl (AzkabanError (MissingUrlForAlias (val alias))), w)) \<and>
   (\<not> truthy alias \<and> \<not> truthy url \<longrightarrow>
      get_credentials url user password alias w =
        (Inl (ValueError ''Either url or alias must be specified.''), w)) \<and>
   (\<not> truthy alias \<and> truthy url \<longrightarrow>
      get_credentials url user password alias w =
        login (rstrip (val url) (CHR ''/'')) user password alias
          \<lparr>cfg_defaults = [], cfg_sections = []\<rparr> w) \<and>
   (server v (posted v) (login_request u (login_user usr v) (login_password password v)) =
      RaiseConnectionError \<longrightarrow>
      fst (login u usr password alias parser v) = Inl (AzkabanError UnableToConnect)) \<and>
   (server v (posted v) (login_request u (login_user usr v) (login_password password v)) =
      RaiseMissingSchema \<longrightarrow>
      fst (login u usr password alias parser v) = Inl (AzkabanError InvalidUrl)) \<and>
   (server v (posted v) (login_request u (login_user usr v) (login_password password v)) =
      Response body (Some res) \<and> map_of res ''error'' = Some err \<longrightarrow>
      fst (login u usr password alias parser v) = Inl (AzkabanError (ServerError err))) \<and>
   (get_credentials url user password alias w = (Inr (u, session_id), w1) \<and>
    disk w archive = None \<longrightarrow>
      fst (upload self archive url user password alias w) =
        Inl (AzkabanError (MissingArchive archive))) \<and>
   (get_credentials url user password alias w = (Inr (u, session_id), w1) \<and>
    disk w archive = Some z \<and>
    server w (posted w1) (upload_request u session_id (name (heap w self)) z) =
      RaiseConnectionError \<longrightarrow>
      fst (upload self archive url user password alias w) = Inl (AzkabanError UnableToConnect)) \<and>
   (get_credentials url user password alias w = (Inr (u, session_id), w1) \<and>
    disk w archive = Some z \<and>
    server w (posted w1) (upload_request u session_id (name (heap w self)) z) =
      RaiseMissingSchema \<longrightarrow>
      fst (upload self archive url user password alias w) = Inl (AzkabanError InvalidUrl)) \<and>
   (get_credentials url user password alias w = (Inr (u, session_id), w1) \<and>
    server w (posted w1) (run_request u session_id (name (heap w self)) flow) =
      RaiseConnectionError \<longrightarrow>
      fst (run self flow url user password alias w) = Inl (AzkabanError UnableToConnect)) \<and>
   (get_credentials url user password alias w = (Inr (u, session_id), w1) \<and>
    server w (posted w1) (run_request u session_id (name (heap w self)) flow) =
      RaiseMissingSchema \<longrightarrow>
      fst (run self flow url user password alias w) = Inl (AzkabanError InvalidUrl)) \<and>
   (dispatch self cmd w = (Inl (AzkabanError m), w2) \<longrightarrow>
      main self True cmd w = (Inl (SystemExit 1), w2\<lparr>errors := errors w2 @ [m]\<rparr>))"
proof -
  have lookup1: "lookup url user alias w = Inl (AzkabanError (MissingAlias (val alias)))"
    if "truthy alias \<and> \<not> has_section (read_config w) (val alias)"
    using that by (simp add: lookup_def Let_def)
  have lookup2: "lookup url user alias w = Inl (AzkabanError (MissingUrlForAlias (val alias)))"
    if "truthy alias \<and> has_section (read_config w) (val alias) \<and>
      \<not> has_option (read_config w) (val alias) ''url''"
    using that by (simp add: lookup_def Let_def)
  have lookup3: "lookup url user alias w =
      Inl (ValueError ''Either url or alias must be specified.'')"
    if "\<not> truthy alias \<and> \<not> truthy url"
    using that by (simp add: lookup_def)
  have lookup4: "lookup url user alias w =
      Inr (val url, user, None, \<lparr>cfg_defaults = [], cfg_sections = []\<rparr>)"
    if "\<not> truthy alias \<and> truthy url"
    using that by (simp add: lookup_def)
  have none: "\<not> truthy None" by simp
  have frame: "heap w1 = heap w \<and> disk w1 = disk w \<and> server w1 = server w"
    if "get_credentials url user password alias w = (Inr (u, session_id), w1)"
    using get_credentials_frame [of url user password "alias" w] that by simp
  show ?thesis
  proof (intro conjI impI)
    assume "truthy alias \<and> \<not> has_section (read_config w) (val alias)"
    then show "get_credentials url user password alias w =
        (Inl (AzkabanError (MissingAlias (val alias))), w)"
      using lookup1 get_credentials_lookup_failed by blast
  next
    assume "truthy alias \<and> has_section (read_config w) (val alias) \<and>
      \<not> has_option (read_config w) (val alias) ''url''"
    then show "get_credentials url user password alias w =
        (Inl (AzkabanError (MissingUrlForAlias (val alias))), w)"
      using lookup2 get_credentials_lookup_failed by blast
  next
    assume "\<not> truthy alias \<and> \<not> truthy url"
    then show "get_credentials url user password alias w =
        (Inl (ValueError ''Either url or alias must be specified.''), w)"
      using lookup3 get_credentials_lookup_failed by blast
  next
    assume "\<not> truthy alias \<and> truthy url"
    then show "get_credentials url user password alias w =
        login (rstrip (val url) (CHR ''/'')) user password alias
          \<lparr>cfg_defaults = [], cfg_sections = []\<rparr> w"
      using get_credentials_no_session [OF lookup4 none] by blast
  next
    assume "server v (posted v) (login_request u (login_user usr v) (login_password password v)) =
      RaiseConnectionError"
    then show "fst (login u usr password alias parser v) = Inl (AzkabanError UnableToConnect)"
      unfolding login_reply by simp
  next
    assume "server v (posted v) (login_request u (login_user usr v) (login_password password v)) =
      RaiseMissingSchema"
    then show "fst (login u usr password alias parser v) = Inl (AzkabanError InvalidUrl)"
      unfolding login_reply by simp
  next
    assume "server v (posted v) (login_request u (login_user usr v) (login_password password v)) =
      Response body (Some res) \<and> map_of res ''error'' = Some err"
    then show "fst (login u usr password alias parser v) = Inl (AzkabanError (ServerError err))"
      unfolding login_reply by simp
  next
    assume a: "get_credentials url user password alias w = (Inr (u, session_id), w1) \<and>
      disk w archive = None"
    then have "disk w1 archive = None" using frame by simp
    then show "fst (upload self archive url user password alias w) =
        Inl (AzkabanError (MissingArchive archive))"
      using a by (simp add: upload_def)
  next
    assume a: "get_credentials url user password alias w = (Inr (u, session_id), w1) \<and>
      disk w archive = Some z \<and>
      server w (posted w1) (upload_request u session_id (name (heap w self)) z) =
        RaiseConnectionError"
    then have g: "get_credentials url user password alias w = (Inr (u, session_id), w1)"
      by simp
    have d: "disk w1 archive = Some z" using a frame by simp
    have r: "server w1 (posted w1) (upload_request u session_id (name (heap w1 self)) z) =
        RaiseConnectionError"
      using a frame by simp
    show "fst (upload self archive url user password alias w) = Inl (AzkabanError UnableToConnect)"
      unfolding upload_reply [OF g d] r by simp
  next
    assume a: "get_credentials url user password alias w = (Inr (u, session_id), w1) \<and>
      disk w archive = Some z \<and>
      server w (posted w1) (upload_request u session_id (name (heap w self)) z) =
        RaiseMissingSchema"
    then have g: "get_credentials url user password alias w = (Inr (u, session_id), w1)"
      by simp
    have d: "disk w1 archive = Some z" using a frame by simp
    have r: "server w1 (posted w1) (upload_request u session_id (name (heap w1 self)) z) =
        RaiseMissingSchema"
      using a frame by simp
    show "fst (upload self archive url user password alias w) = Inl (AzkabanError InvalidUrl)"
      unfolding upload_reply [OF g d] r by simp
  next
    assume a: "get_credentials url user password alias w = (Inr (u, session_id), w1) \<and>
      server w (posted w1) (run_request u session_id (name (heap w self)) flow) =
        RaiseConnectionError"
    then have g: "get_credentials url user password alias w = (Inr (u, session_id), w1)"
      by simp
    have r: "server w1 (posted w1) (run_request u session_id (name (heap w1 self)) flow) =
        RaiseConnectionError"
      using a frame by simp
    show "fst (run self flow url user password alias w) = Inl (AzkabanError UnableToConnect)"
      unfolding run_reply [OF g] r by simp
  next
    assume a: "get_credentials url user password alias w = (Inr (u, session_id), w1) \<and>
      server w (posted w1) (run_request u session_id (name (heap w self)) flow) =
        RaiseMissingSchema"
    then have g: "get_credentials url user password alias w = (Inr (u, session_id), w1)"
      by simp
    have r: "server w1 (posted w1) (run_request u session_id (name (heap w1 self)) flow) =
        RaiseMissingSchema"
      using a frame by simp
    show "fst (run self flow url user password alias w) = Inl (AzkabanError InvalidUrl)"
      unfolding run_reply [OF g] r by simp
  next
    assume "dispatch self cmd w = (Inl (AzkabanError m), w2)"
    then show "main self True cmd w = (Inl (SystemExit 1), w2\<lparr>errors := errors w2 @ [m]\<rparr>)"
      by (simp add: main_def)
  qed
qed

lemma dropping_credentials:
  "get_credentials None None None (Some ''prod'') (dropping r) =
     (Inr (''http://host:8081'', ''token1''),
      (dropping r)\<lparr>posted := [probe_request ''http://host:8081'' ''token1'']\<rparr>)"
  by (simp add: creds_defs dropping_def cached_def online_def sample_def)

lemma dropping_state:
  "disk (dropping r) ''/some/file.path'' = Some (Text ''data'')"
  "disk (dropping r) ''/tmp/foo.zip'' = None"
  "server (dropping r) [probe_request ''http://host:8081'' ''token1''] q = r"
  by (simp_all add: dropping_def cached_def online_def sample_def)

lemma failing_state:
  "server (failing r) h q = r" "\<not> truthy None" "truthy (Some ''http://host:8081/'')"
  "truthy (Some ''prod'')" "val (Some ''prod'') = ''prod''"
  by (simp_all add: failing_def)

theorem domain_errors_witness:
  "get_credentials None None None (Some ''prod'') online =
     (Inl (AzkabanError (MissingAlias ''prod'')), online) \<and>
   get_credentials None None None (Some ''prod'') nourl =
     (Inl (AzkabanError (MissingUrlForAlias ''prod'')), nourl) \<and>
   get_credentials None None None None sample =
     (Inl (ValueError ''Either url or alias must be specified.''), sample) \<and>
   fst (get_credentials (Some ''http://host:8081/'') None (Some ''secret'') None
     (failing RaiseConnectionError)) = Inl (AzkabanError UnableToConnect) \<and>
   fst (get_credentials (Some ''http://host:8081/'') None (Some ''secret'') None
     (failing RaiseMissingSchema)) = Inl (AzkabanError InvalidUrl) \<and>
   fst (get_credentials (Some ''http://host:8081/'') None (Some ''secret'') None
     (failing (Response ''{error}'' (Some [(''error'', ''Incorrect Login.'')])))) =
     Inl (AzkabanError (ServerError ''Incorrect Login.'')) \<and>
   fst (upload 0 ''/tmp/foo.zip'' None None None (Some ''prod'') (dropping RaiseConnectionError)) =
     Inl (AzkabanError (MissingArchive ''/tmp/foo.zip'')) \<and>
   fst (upload 0 ''/some/file.path'' None None None (Some ''prod'')
     (dropping RaiseConnectionError)) = Inl (AzkabanError UnableToConnect) \<and>
   fst (upload 0 ''/some/file.path'' None None None (Some ''prod'')
     (dropping RaiseMissingSchema)) = Inl (AzkabanError InvalidUrl) \<and>
   fst (run 0 ''bar'' None None None (Some ''prod'') (dropping RaiseConnectionError)) =
     Inl (AzkabanError UnableToConnect) \<and>
   fst (run 0 ''bar'' None None None (Some ''prod'') (dropping RaiseMissingSchema)) =
     Inl (AzkabanError InvalidUrl) \<and>
   main 0 True (Run ''bar'' None None (Some ''prod'')) online =
     (Inl (SystemExit 1), online\<lparr>errors := errors online @ [MissingAlias ''prod'']\<rparr>)"
proof -
  note d1 = domain_errors [THEN conjunct1]
  note d2 = domain_errors [THEN conjunct2, THEN conjunct1]
  note d3 = domain_errors [THEN conjunct2, THEN conjunct2, THEN conjunct1]
  note d4 = domain_errors [THEN conjunct2, THEN conjunct2, THEN conjunct2, THEN conjunct1]
  note rest4 = domain_errors [THEN conjunct2, THEN conjunct2, THEN conjunct2, THEN conjunct2]
  note d5 = rest4 [THEN conjunct1]
  note d6 = rest4 [THEN conjunct2, THEN conjunct1]
  note d7 = rest4 [THEN conjunct2, THEN conjunct2, THEN conjunct1]
  note d8 = rest4 [THEN conjunct2, THEN conjunct2, THEN conjunct2, THEN conjunct1]
  note rest8 = rest4 [THEN conjunct2, THEN conjunct2, THEN conjunct2, THEN conjunct2]
  note d9 = rest8 [THEN conjunct1]
  note d10 = rest8 [THEN conjunct2, THEN conjunct1]
  note d11 = rest8 [THEN conjunct2, THEN conjunct2, THEN conjunct1]
  note d12 = rest8 [THEN conjunct2, THEN conjunct2, THEN conjunct2, THEN conjunct1]
  note d13 = rest8 [THEN conjunct2, THEN conjunct2, THEN conjunct2, THEN conjunct2]
  have "get_credentials None None None (Some ''prod'') online =
      (Inl (AzkabanError (MissingAlias (val (Some ''prod'')))), online)"
    by (rule d1 [THEN mp]) (simp add: sample_configs has_section_def)
  then have c1: "get_credentials None None None (Some ''prod'') online =
      (Inl (AzkabanError (MissingAlias ''prod'')), online)"
    by simp
  have "get_credentials None None None (Some ''prod'') nourl =
      (Inl (AzkabanError (MissingUrlForAlias (val (Some ''prod'')))), nourl)"
    by (rule d2 [THEN mp]) (simp add: sample_configs has_section_def has_option_def)
  then have c2: "get_credentials None None None (Some ''prod'') nourl =
      (Inl (AzkabanError (MissingUrlForAlias ''prod'')), nourl)"
    by simp
  have c3: "get_credentials None None None None sample =
      (Inl (ValueError ''Either url or alias must be specified.''), sample)"
    by (rule d3 [THEN mp]) simp
  have via: "get_credentials (Some ''http://host:8081/'') None (Some ''secret'') None (failing r) =
      login (rstrip (val (Some ''http://host:8081/'')) (CHR ''/'')) None (Some ''secret'') None
        \<lparr>cfg_defaults = [], cfg_sections = []\<rparr> (failing r)" for r
    by (rule d4 [THEN mp]) simp
  have c4: "fst (get_credentials (Some ''http://host:8081/'') None (Some ''secret'') None
      (failing RaiseConnectionError)) = Inl (AzkabanError UnableToConnect)"
    unfolding via by (rule d5 [THEN mp]) (simp add: failing_def)
  have c5: "fst (get_credentials (Some ''http://host:8081/'') None (Some ''secret'') None
      (failing RaiseMissingSchema)) = Inl (AzkabanError InvalidUrl)"
    unfolding via by (rule d6 [THEN mp]) (simp add: failing_def)
  have c6: "fst (get_credentials (Some ''http://host:8081/'') None (Some ''secret'') None
      (failing (Response ''{error}'' (Some [(''error'', ''Incorrect Login.'')])))) =
      Inl (AzkabanError (ServerError ''Incorrect Login.''))"
    unfolding via
    by (rule d7 [THEN mp], rule conjI, rule failing_state(1)) simp
  have c7: "fst (upload 0 ''/tmp/foo.zip'' None None None (Some ''prod'')
      (dropping RaiseConnectionError)) = Inl (AzkabanError (MissingArchive ''/tmp/foo.zip''))"
    by (rule d8 [THEN mp], rule conjI, rule dropping_credentials) (rule dropping_state)
  have c8: "fst (upload 0 ''/some/file.path'' None None None (Some ''prod'')
      (dropping RaiseConnectionError)) = Inl (AzkabanError UnableToConnect)"
    by (rule d9 [THEN mp], rule conjI, rule dropping_credentials, rule conjI,
        rule dropping_state) (simp add: dropping_def)
  have c9: "fst (upload 0 ''/some/file.path'' None None None (Some ''prod'')
      (dropping RaiseMissingSchema)) = Inl (AzkabanError InvalidUrl)"
    by (rule d10 [THEN mp], rule conjI, rule dropping_credentials, rule conjI,
        rule dropping_state) (simp add: dropping_def)
  have c10: "fst (run 0 ''bar'' None None None (Some ''prod'') (dropping RaiseConnectionError)) =
      Inl (AzkabanError UnableToConnect)"
    by (rule d11 [THEN mp], rule conjI, rule dropping_credentials) (simp add: dropping_def)
  have c11: "fst (run 0 ''bar'' None None None (Some ''prod'') (dropping RaiseMissingSchema)) =
      Inl (AzkabanError InvalidUrl)"
    by (rule d12 [THEN mp], rule conjI, rule dropping_credentials) (simp add: dropping_def)
  have c12: "main 0 True (Run ''bar'' None None (Some ''prod'')) online =
      (Inl (SystemExit 1), online\<lparr>errors := errors online @ [MissingAlias ''prod'']\<rparr>)"
    by (rule d13 [THEN mp]) (simp add: dispatch_def run_def c1)
  show ?thesis
    by (intro conjI) (fact c1 c2 c3 c4 c5 c6 c7 c8 c9 c10 c11 c12)+
qed

end
